theory Spec2Isabelle
  imports Main
begin

section \<open>Online learning platform API: the authorization and consistency core\<close>

text \<open>
  A shallow embedding of \<^verbatim>\<open>backend/server.js\<close>: the six tables of the SQLite schema as
  lists of rows, the in-memory rate limiter map, the audit writer, the authentication and
  role middlewares, and every route handler that writes to the database.

  Conventions of the embedding.
  \<^item> The whole server state is one record; a handler takes the state and returns the new
    state with the HTTP response.
  \<^item> Time (\<^verbatim>\<open>Date.now()\<close>, \<^verbatim>\<open>CURRENT_TIMESTAMP\<close>, \<^verbatim>\<open>new Date().toISOString()\<close>) is an
    integer carried by the request.
  \<^item> The libraries that are not part of the repository (\<^verbatim>\<open>jsonwebtoken\<close>, \<^verbatim>\<open>bcrypt\<close>,
    the e-mail validator) are parameters, collected in the record \<open>env\<close> together with
    the one setting of the storage engine that the schema depends on (whether foreign keys
    are enforced).
  \<^item> Request bodies are typed: a field that the route declares as a string is a
    \<open>string\<close>, an integer field a \<open>nat\<close>, an optional field an \<open>option\<close> with \<open>None\<close>
    for JavaScript's \<^verbatim>\<open>undefined\<close>. The range checks of the validator chains are
    modelled; a body of the wrong JSON type is outside the model.
  \<^item> A rejected storage call is modelled where the schema decides it (the \<^verbatim>\<open>UNIQUE\<close>
    constraints) and, for the audit insert, by a flag of the request that says whether
    the storage engine accepts that write. Other failures of the storage engine (a read
    or a write that fails for reasons outside the schema) are not modelled.
  \<^item> The pipeline starts at the rate limiter: the CORS and content-type middlewares in
    front of it answer some requests themselves, and those never reach the limiter.
\<close>

subsection \<open>Rows of the schema\<close>

datatype role = Instructor | Student

fun role_name :: "role \<Rightarrow> string" where
  "role_name Instructor = ''instructor''"
| "role_name Student = ''student''"

fun parse_role :: "string \<Rightarrow> role option" where
  "parse_role r =
     (if r = ''instructor'' then Some Instructor
      else if r = ''student'' then Some Student
      else None)"

record user_row =
  u_id :: nat
  u_email :: string
  u_password_hash :: string
  u_role :: role
  u_created_at :: int
  u_updated_at :: int

record course_row =
  c_id :: nat
  c_title :: string
  c_description :: string
  c_instructor_id :: nat
  c_created_at :: int
  c_updated_at :: int

record lesson_row =
  l_id :: nat
  l_course_id :: nat
  l_title :: string
  l_content :: string
  l_order_index :: nat
  l_created_at :: int
  l_updated_at :: int

record enrollment_row =
  e_id :: nat
  e_student_id :: nat
  e_course_id :: nat
  e_enrolled_at :: int

record progress_row =
  p_id :: nat
  p_student_id :: nat
  p_lesson_id :: nat
  p_completed :: bool
  p_completed_at :: "int option"

record audit_row =
  a_user_id :: "nat option"
  a_action :: string
  a_resource_type :: string
  a_resource_id :: "nat option"
  a_timestamp :: int
  a_ip_address :: "string option"

record limiter_data =
  ld_count :: nat
  ld_resetTime :: int

text \<open>
  The state: the tables in rowid order, the \<^verbatim>\<open>AUTOINCREMENT\<close> counter of each table
  that a handler inserts into and reads \<^verbatim>\<open>lastID\<close> from, and the \<^verbatim>\<open>rateLimiters\<close> map.
  The audit table is append-only, so the position of a row stands for its id.
\<close>

record state =
  users :: "user_row list"
  courses :: "course_row list"
  lessons :: "lesson_row list"
  enrollments :: "enrollment_row list"
  progress :: "progress_row list"
  audit_log :: "audit_row list"
  seq_users :: nat
  seq_courses :: nat
  seq_lessons :: nat
  seq_enrollments :: nat
  seq_progress :: nat
  rateLimiters :: "string \<Rightarrow> limiter_data option"

subsection \<open>Requests and responses\<close>

record payload =
  pl_userId :: "nat option"
  pl_role :: "string option"

datatype jwt_result = Verified payload | TokenExpiredError | JsonWebTokenError

record env =
  jwt_verify :: "int \<Rightarrow> string \<Rightarrow> jwt_result"
  jwt_sign :: "int \<Rightarrow> payload \<Rightarrow> string"
  bcrypt_hash :: "string \<Rightarrow> string"
  bcrypt_compare :: "string \<Rightarrow> string \<Rightarrow> bool"
  isEmail :: "string \<Rightarrow> bool"
  normalizeEmail :: "string \<Rightarrow> string"
  foreign_keys :: bool

datatype api_call =
    Register string string string
  | Login string string
  | CreateCourse string string
  | UpdateCourse nat "string option" "string option"
  | DeleteCourse nat
  | CreateLesson nat string string nat
  | UpdateLesson nat "string option" "string option" "nat option"
  | DeleteLesson nat
  | CreateEnrollment nat
  | DeleteEnrollment nat
  | UpdateProgress nat bool

record request =
  req_ip :: "string option"
  req_remoteAddress :: "string option"
  req_authorization :: "string option"
  req_now :: int
  req_audit_ok :: bool
  req_call :: api_call

record req_user =
  ru_id :: nat
  ru_email :: string
  ru_role :: role

datatype body =
    ErrorBody string
  | AuthBody string req_user
  | CourseBody "course_row option"
  | LessonBody "lesson_row option"
  | EnrollmentBody "enrollment_row option"
  | ProgressBody "progress_row option"
  | NoBody

record response =
  res_status :: nat
  res_body :: body

definition respond :: "nat \<Rightarrow> body \<Rightarrow> response" where
  "respond st b = \<lparr>res_status = st, res_body = b\<rparr>"

definition error_response :: "nat \<Rightarrow> string \<Rightarrow> response" where
  "error_response st msg = respond st (ErrorBody msg)"

subsection \<open>Rate limiting\<close>

definition RATE_LIMIT_WINDOW_MS :: int where
  "RATE_LIMIT_WINDOW_MS = 15 * 60 * 1000"

definition RATE_LIMIT_MAX_REQUESTS :: nat where
  "RATE_LIMIT_MAX_REQUESTS = 100"

text \<open>
  \<^verbatim>\<open>auditLog\<close>: one insert into \<^verbatim>\<open>audit_log\<close> inside \<^verbatim>\<open>try\<close>; a rejected insert is caught
  and printed, and the function returns normally either way. The first argument says
  whether the storage engine accepts the insert.
\<close>

definition auditLog ::
  "bool \<Rightarrow> int \<Rightarrow> nat option \<Rightarrow> string \<Rightarrow> string \<Rightarrow> nat option \<Rightarrow> string option \<Rightarrow> state \<Rightarrow> state"
where
  "auditLog ok now userId action resourceType resourceId ipAddress s =
     (if ok then
        s\<lparr>audit_log := audit_log s @
            [\<lparr>a_user_id = userId, a_action = action, a_resource_type = resourceType,
              a_resource_id = resourceId, a_timestamp = now, a_ip_address = ipAddress\<rparr>]\<rparr>
      else s)"

text \<open>\<^verbatim>\<open>a || b\<close> on strings that may be undefined: the empty string is falsy.\<close>

definition truthy_str :: "string option \<Rightarrow> bool" where
  "truthy_str v = (case v of None \<Rightarrow> False | Some x \<Rightarrow> x \<noteq> [])"

definition clientKey :: "request \<Rightarrow> string" where
  "clientKey req =
     (if truthy_str (req_ip req) then the (req_ip req)
      else if truthy_str (req_remoteAddress req) then the (req_remoteAddress req)
      else ''unknown'')"

text \<open>
  \<^verbatim>\<open>perClientRateLimit\<close>. The result \<open>None\<close> is the call of \<^verbatim>\<open>next()\<close>; \<open>Some r\<close> is
  the response of the middleware itself.
\<close>

definition perClientRateLimit :: "request \<Rightarrow> state \<Rightarrow> state \<times> response option" where
  "perClientRateLimit req s =
     (let key = clientKey req;
          now = req_now req;
          limiterData =
            (case rateLimiters s key of
               None \<Rightarrow> \<lparr>ld_count = 0, ld_resetTime = now\<rparr>
             | Some d \<Rightarrow>
                 if now - ld_resetTime d > RATE_LIMIT_WINDOW_MS
                 then \<lparr>ld_count = 0, ld_resetTime = now\<rparr>
                 else d);
          limiterData' = limiterData\<lparr>ld_count := ld_count limiterData + 1\<rparr>;
          s' = s\<lparr>rateLimiters := (rateLimiters s)(key \<mapsto> limiterData')\<rparr>
      in if ld_count limiterData' > RATE_LIMIT_MAX_REQUESTS
         then (auditLog (req_audit_ok req) now None ''RATE_LIMIT_EXCEEDED'' ''request'' None
                 (Some key) s',
               Some (error_response 429 ''Too many requests''))
         else (s', None))"

text \<open>The \<^verbatim>\<open>setInterval\<close> sweep: every entry whose window has expired is deleted.\<close>

definition sweep :: "int \<Rightarrow> state \<Rightarrow> state" where
  "sweep now s =
     s\<lparr>rateLimiters :=
         (\<lambda>key. case rateLimiters s key of
                  None \<Rightarrow> None
                | Some d \<Rightarrow>
                    if now - ld_resetTime d > RATE_LIMIT_WINDOW_MS then None else Some d)\<rparr>"

subsection \<open>Authentication and role middlewares\<close>

text \<open>
  The bearer token of the \<^verbatim>\<open>Authorization\<close> header:
  \<^verbatim>\<open>authHeader && authHeader.startsWith('Bearer ') ? authHeader.substring(7) : null\<close>.
\<close>

definition bearer_token :: "string option \<Rightarrow> string option" where
  "bearer_token authHeader =
     (case authHeader of
        None \<Rightarrow> None
      | Some h \<Rightarrow> if take 7 h = ''Bearer '' then Some (drop 7 h) else None)"

text \<open>\<^verbatim>\<open>!payload.userId\<close> and \<^verbatim>\<open>!payload.role\<close>: undefined, 0 and the empty string are falsy.\<close>

definition falsy_id :: "nat option \<Rightarrow> bool" where
  "falsy_id v = (case v of None \<Rightarrow> True | Some n \<Rightarrow> n = 0)"

definition find_user_by_id :: "state \<Rightarrow> nat \<Rightarrow> user_row option" where
  "find_user_by_id s i = find (\<lambda>u. u_id u = i) (users s)"

definition find_user_by_email :: "state \<Rightarrow> string \<Rightarrow> user_row option" where
  "find_user_by_email s e = find (\<lambda>u. u_email u = e) (users s)"

text \<open>
  \<^verbatim>\<open>authenticateToken\<close>: \<open>Inl r\<close> is the 401 response of the middleware, \<open>Inr u\<close> the
  value it stores in \<^verbatim>\<open>req.user\<close> before calling \<^verbatim>\<open>next()\<close>: the columns id, email and
  role of the row selected by the id of the payload.
\<close>

definition authenticateToken :: "env \<Rightarrow> request \<Rightarrow> state \<Rightarrow> response + req_user" where
  "authenticateToken env req s =
     (case bearer_token (req_authorization req) of
        None \<Rightarrow> Inl (error_response 401 ''Authentication required'')
      | Some token \<Rightarrow>
          if token = [] then Inl (error_response 401 ''Authentication required'')
          else
            (case jwt_verify env (req_now req) token of
               TokenExpiredError \<Rightarrow> Inl (error_response 401 ''Token expired'')
             | JsonWebTokenError \<Rightarrow> Inl (error_response 401 ''Invalid token'')
             | Verified payload \<Rightarrow>
                 if falsy_id (pl_userId payload) \<or> \<not> truthy_str (pl_role payload)
                 then Inl (error_response 401 ''Invalid token payload'')
                 else
                   (case find_user_by_id s (the (pl_userId payload)) of
                      None \<Rightarrow> Inl (error_response 401 ''User not found'')
                    | Some user \<Rightarrow>
                        Inr \<lparr>ru_id = u_id user, ru_email = u_email user,
                              ru_role = u_role user\<rparr>)))"

text \<open>\<^verbatim>\<open>requireRole(...roles)\<close>: true when the middleware calls \<^verbatim>\<open>next()\<close>.\<close>

definition requireRole :: "role list \<Rightarrow> req_user \<Rightarrow> bool" where
  "requireRole roles user = (ru_role user \<in> set roles)"

subsection \<open>Validation helpers\<close>

text \<open>
  The \<^verbatim>\<open>trim()\<close> sanitizer strips the whitespace of JavaScript's \<^verbatim>\<open>\s\<close> from both ends. A
  \<open>char\<close> is a code unit below 256, and the whitespace characters in that range are the
  space, TAB, LF, VT, FF, CR and the no-break space U+00A0; the whitespace characters
  above U+00FF have no counterpart in the type \<open>string\<close>.
\<close>

definition is_space :: "char \<Rightarrow> bool" where
  "is_space c =
     (c \<in> set [CHR '' '', CHR 0x09, CHR 0x0A, CHR 0x0B, CHR 0x0C, CHR 0x0D, CHR 0xA0])"

definition js_trim :: "string \<Rightarrow> string" where
  "js_trim v = rev (dropWhile is_space (rev (dropWhile is_space v)))"

definition isLength :: "nat \<Rightarrow> nat \<Rightarrow> string \<Rightarrow> bool" where
  "isLength lo hi v = (lo \<le> length v \<and> length v \<le> hi)"

definition validation_failed :: response where
  "validation_failed = error_response 400 ''Validation failed''"

subsection \<open>Queries and statements\<close>

definition find_course :: "state \<Rightarrow> nat \<Rightarrow> course_row option" where
  "find_course s i = find (\<lambda>c. c_id c = i) (courses s)"

definition find_lesson :: "state \<Rightarrow> nat \<Rightarrow> lesson_row option" where
  "find_lesson s i = find (\<lambda>l. l_id l = i) (lessons s)"

definition find_enrollment :: "state \<Rightarrow> nat \<Rightarrow> enrollment_row option" where
  "find_enrollment s i = find (\<lambda>e. e_id e = i) (enrollments s)"

definition find_enrollment_pair :: "state \<Rightarrow> nat \<Rightarrow> nat \<Rightarrow> enrollment_row option" where
  "find_enrollment_pair s student course =
     find (\<lambda>e. e_student_id e = student \<and> e_course_id e = course) (enrollments s)"

definition find_enrollment_owned :: "state \<Rightarrow> nat \<Rightarrow> nat \<Rightarrow> enrollment_row option" where
  "find_enrollment_owned s i student =
     find (\<lambda>e. e_id e = i \<and> e_student_id e = student) (enrollments s)"

definition find_progress_pair :: "state \<Rightarrow> nat \<Rightarrow> nat \<Rightarrow> progress_row option" where
  "find_progress_pair s student lesson =
     find (\<lambda>p. p_student_id p = student \<and> p_lesson_id p = lesson) (progress s)"

text \<open>
  Inserts. The new id is the successor of the table's \<^verbatim>\<open>AUTOINCREMENT\<close> counter. An
  insert that violates a \<^verbatim>\<open>UNIQUE\<close> constraint of the schema is rejected (\<open>None\<close>):
  \<^verbatim>\<open>users.email\<close>, \<^verbatim>\<open>enrollments(student_id, course_id)\<close>,
  \<^verbatim>\<open>progress(student_id, lesson_id)\<close>.
\<close>

definition insert_user :: "string \<Rightarrow> string \<Rightarrow> role \<Rightarrow> int \<Rightarrow> state \<Rightarrow> (state \<times> nat) option" where
  "insert_user email hash r now s =
     (if find_user_by_email s email \<noteq> None then None
      else
        (let lastID = Suc (seq_users s)
         in Some (s\<lparr>users := users s @
                      [\<lparr>u_id = lastID, u_email = email, u_password_hash = hash, u_role = r,
                        u_created_at = now, u_updated_at = now\<rparr>],
                    seq_users := lastID\<rparr>, lastID)))"

definition insert_course :: "string \<Rightarrow> string \<Rightarrow> nat \<Rightarrow> int \<Rightarrow> state \<Rightarrow> state \<times> nat" where
  "insert_course title description instructor now s =
     (let lastID = Suc (seq_courses s)
      in (s\<lparr>courses := courses s @
               [\<lparr>c_id = lastID, c_title = title, c_description = description,
                 c_instructor_id = instructor, c_created_at = now, c_updated_at = now\<rparr>],
             seq_courses := lastID\<rparr>, lastID))"

definition insert_lesson :: "nat \<Rightarrow> string \<Rightarrow> string \<Rightarrow> nat \<Rightarrow> int \<Rightarrow> state \<Rightarrow> state \<times> nat" where
  "insert_lesson course title content order_index now s =
     (let lastID = Suc (seq_lessons s)
      in (s\<lparr>lessons := lessons s @
               [\<lparr>l_id = lastID, l_course_id = course, l_title = title, l_content = content,
                 l_order_index = order_index, l_created_at = now, l_updated_at = now\<rparr>],
             seq_lessons := lastID\<rparr>, lastID))"

definition insert_enrollment :: "nat \<Rightarrow> nat \<Rightarrow> int \<Rightarrow> state \<Rightarrow> (state \<times> nat) option" where
  "insert_enrollment student course now s =
     (if find_enrollment_pair s student course \<noteq> None then None
      else
        (let lastID = Suc (seq_enrollments s)
         in Some (s\<lparr>enrollments := enrollments s @
                      [\<lparr>e_id = lastID, e_student_id = student, e_course_id = course,
                        e_enrolled_at = now\<rparr>],
                    seq_enrollments := lastID\<rparr>, lastID)))"

definition insert_progress ::
  "nat \<Rightarrow> nat \<Rightarrow> bool \<Rightarrow> int option \<Rightarrow> state \<Rightarrow> (state \<times> nat) option"
where
  "insert_progress student lesson completed completed_at s =
     (if find_progress_pair s student lesson \<noteq> None then None
      else
        (let lastID = Suc (seq_progress s)
         in Some (s\<lparr>progress := progress s @
                      [\<lparr>p_id = lastID, p_student_id = student, p_lesson_id = lesson,
                        p_completed = completed, p_completed_at = completed_at\<rparr>],
                    seq_progress := lastID\<rparr>, lastID)))"

text \<open>
  \<^verbatim>\<open>UPDATE progress SET completed = ?, completed_at = ? WHERE student_id = ? AND lesson_id = ?\<close>
\<close>

definition update_progress :: "nat \<Rightarrow> nat \<Rightarrow> bool \<Rightarrow> int option \<Rightarrow> state \<Rightarrow> state" where
  "update_progress student lesson completed completed_at s =
     s\<lparr>progress :=
         map (\<lambda>p. if p_student_id p = student \<and> p_lesson_id p = lesson
                  then p\<lparr>p_completed := completed, p_completed_at := completed_at\<rparr>
                  else p)
           (progress s)\<rparr>"

text \<open>
  The partial updates: the handler collects one assignment for each field of the body
  that is not \<^verbatim>\<open>undefined\<close>, and the statement
  \<^verbatim>\<open>UPDATE ... SET <assignments>, updated_at = CURRENT_TIMESTAMP WHERE id = ?\<close> applies
  them to the row.
\<close>

datatype course_update = SetCourseTitle string | SetCourseDescription string

fun apply_course_update :: "course_update \<Rightarrow> course_row \<Rightarrow> course_row" where
  "apply_course_update (SetCourseTitle v) c = c\<lparr>c_title := v\<rparr>"
| "apply_course_update (SetCourseDescription v) c = c\<lparr>c_description := v\<rparr>"

definition update_course :: "course_update list \<Rightarrow> nat \<Rightarrow> int \<Rightarrow> state \<Rightarrow> state" where
  "update_course updates i now s =
     s\<lparr>courses :=
         map (\<lambda>c. if c_id c = i
                  then (fold apply_course_update updates c)\<lparr>c_updated_at := now\<rparr>
                  else c)
           (courses s)\<rparr>"

datatype lesson_update =
  SetLessonTitle string | SetLessonContent string | SetLessonOrderIndex nat

fun apply_lesson_update :: "lesson_update \<Rightarrow> lesson_row \<Rightarrow> lesson_row" where
  "apply_lesson_update (SetLessonTitle v) l = l\<lparr>l_title := v\<rparr>"
| "apply_lesson_update (SetLessonContent v) l = l\<lparr>l_content := v\<rparr>"
| "apply_lesson_update (SetLessonOrderIndex v) l = l\<lparr>l_order_index := v\<rparr>"

definition update_lesson :: "lesson_update list \<Rightarrow> nat \<Rightarrow> int \<Rightarrow> state \<Rightarrow> state" where
  "update_lesson updates i now s =
     s\<lparr>lessons :=
         map (\<lambda>l. if l_id l = i
                  then (fold apply_lesson_update updates l)\<lparr>l_updated_at := now\<rparr>
                  else l)
           (lessons s)\<rparr>"

text \<open>
  Deletes. The schema declares \<^verbatim>\<open>ON DELETE CASCADE\<close> from lessons and enrollments to
  courses and from progress to lessons. SQLite follows these clauses only on a connection
  that enforces foreign keys, and the server leaves that to the engine's default; the
  flag \<open>fk\<close> (the field \<open>foreign_keys\<close> of the environment) says whether the engine
  enforces them.
\<close>

definition delete_lesson :: "bool \<Rightarrow> nat \<Rightarrow> state \<Rightarrow> state" where
  "delete_lesson fk i s =
     s\<lparr>lessons := filter (\<lambda>l. l_id l \<noteq> i) (lessons s),
       progress := (if fk then filter (\<lambda>p. p_lesson_id p \<noteq> i) (progress s) else progress s)\<rparr>"

definition delete_course :: "bool \<Rightarrow> nat \<Rightarrow> state \<Rightarrow> state" where
  "delete_course fk i s =
     (let gone = map l_id (filter (\<lambda>l. l_course_id l = i) (lessons s))
      in s\<lparr>courses := filter (\<lambda>c. c_id c \<noteq> i) (courses s),
            lessons := (if fk then filter (\<lambda>l. l_course_id l \<noteq> i) (lessons s) else lessons s),
            enrollments :=
              (if fk then filter (\<lambda>e. e_course_id e \<noteq> i) (enrollments s) else enrollments s),
            progress :=
              (if fk then filter (\<lambda>p. p_lesson_id p \<notin> set gone) (progress s)
               else progress s)\<rparr>)"

definition delete_enrollment :: "nat \<Rightarrow> state \<Rightarrow> state" where
  "delete_enrollment i s = s\<lparr>enrollments := filter (\<lambda>e. e_id e \<noteq> i) (enrollments s)\<rparr>"

subsection \<open>Route handlers\<close>

text \<open>
  Each handler is the body of the route's last callback, from \<^verbatim>\<open>try {\<close> to the
  \<^verbatim>\<open>catch\<close> that answers 500. \<open>user\<close> is \<^verbatim>\<open>req.user\<close>.
\<close>

definition audit :: "request \<Rightarrow> nat \<Rightarrow> string \<Rightarrow> string \<Rightarrow> nat \<Rightarrow> state \<Rightarrow> state" where
  "audit req userId action resourceType resourceId s =
     auditLog (req_audit_ok req) (req_now req) (Some userId) action resourceType
       (Some resourceId) (req_ip req) s"

definition post_register ::
  "env \<Rightarrow> request \<Rightarrow> string \<Rightarrow> string \<Rightarrow> role \<Rightarrow> state \<Rightarrow> state \<times> response"
where
  "post_register env req email password r s =
     (case find_user_by_email s email of
        Some existingUser \<Rightarrow> (s, error_response 409 ''User already exists'')
      | None \<Rightarrow>
          (case insert_user email (bcrypt_hash env password) r (req_now req) s of
             None \<Rightarrow> (s, error_response 500 ''Registration failed'')
           | Some (s1, lastID) \<Rightarrow>
               (let s2 = audit req lastID ''USER_REGISTERED'' ''user'' lastID s1;
                    token = jwt_sign env (req_now req)
                              \<lparr>pl_userId = Some lastID, pl_role = Some (role_name r)\<rparr>
                in (s2, respond 201
                          (AuthBody token
                             \<lparr>ru_id = lastID, ru_email = email, ru_role = r\<rparr>)))))"

definition post_login :: "env \<Rightarrow> request \<Rightarrow> string \<Rightarrow> string \<Rightarrow> state \<Rightarrow> state \<times> response" where
  "post_login env req email password s =
     (case find_user_by_email s email of
        None \<Rightarrow> (s, error_response 401 ''Invalid credentials'')
      | Some user \<Rightarrow>
          if \<not> bcrypt_compare env password (u_password_hash user)
          then (audit req (u_id user) ''LOGIN_FAILED'' ''user'' (u_id user) s,
                error_response 401 ''Invalid credentials'')
          else
            (let s1 = audit req (u_id user) ''LOGIN_SUCCESS'' ''user'' (u_id user) s;
                 token = jwt_sign env (req_now req)
                           \<lparr>pl_userId = Some (u_id user),
                             pl_role = Some (role_name (u_role user))\<rparr>
             in (s1, respond 200
                       (AuthBody token
                          \<lparr>ru_id = u_id user, ru_email = u_email user,
                            ru_role = u_role user\<rparr>))))"

definition post_courses :: "request \<Rightarrow> req_user \<Rightarrow> string \<Rightarrow> string \<Rightarrow> state \<Rightarrow> state \<times> response" where
  "post_courses req user title description s =
     (case insert_course title description (ru_id user) (req_now req) s of
        (s1, lastID) \<Rightarrow>
          (let s2 = audit req (ru_id user) ''COURSE_CREATED'' ''course'' lastID s1
           in (s2, respond 201 (CourseBody (find_course s2 lastID)))))"

definition course_updates :: "string option \<Rightarrow> string option \<Rightarrow> course_update list" where
  "course_updates title description =
     (case title of None \<Rightarrow> [] | Some v \<Rightarrow> [SetCourseTitle v]) @
     (case description of None \<Rightarrow> [] | Some v \<Rightarrow> [SetCourseDescription v])"

definition put_course ::
  "request \<Rightarrow> req_user \<Rightarrow> nat \<Rightarrow> string option \<Rightarrow> string option \<Rightarrow> state \<Rightarrow> state \<times> response"
where
  "put_course req user i title description s =
     (case find_course s i of
        None \<Rightarrow> (s, error_response 404 ''Course not found'')
      | Some course \<Rightarrow>
          if c_instructor_id course \<noteq> ru_id user
          then (s, error_response 403 ''Not authorized to modify this course'')
          else
            (let updates = course_updates title description
             in if length updates = 0
                then (s, error_response 400 ''No fields to update'')
                else
                  (let s1 = update_course updates i (req_now req) s;
                       s2 = audit req (ru_id user) ''COURSE_UPDATED'' ''course'' i s1
                   in (s2, respond 200 (CourseBody (find_course s2 i))))))"

definition delete_course_handler :: "env \<Rightarrow> request \<Rightarrow> req_user \<Rightarrow> nat \<Rightarrow> state \<Rightarrow> state \<times> response" where
  "delete_course_handler env req user i s =
     (case find_course s i of
        None \<Rightarrow> (s, error_response 404 ''Course not found'')
      | Some course \<Rightarrow>
          if c_instructor_id course \<noteq> ru_id user
          then (s, error_response 403 ''Not authorized to delete this course'')
          else
            (let s1 = delete_course (foreign_keys env) i s;
                 s2 = audit req (ru_id user) ''COURSE_DELETED'' ''course'' i s1
             in (s2, respond 204 NoBody)))"

definition post_lessons ::
  "request \<Rightarrow> req_user \<Rightarrow> nat \<Rightarrow> string \<Rightarrow> string \<Rightarrow> nat \<Rightarrow> state \<Rightarrow> state \<times> response"
where
  "post_lessons req user courseId title content order_index s =
     (case find_course s courseId of
        None \<Rightarrow> (s, error_response 404 ''Course not found'')
      | Some course \<Rightarrow>
          if c_instructor_id course \<noteq> ru_id user
          then (s, error_response 403 ''Not authorized to add lessons to this course'')
          else
            (case insert_lesson courseId title content order_index (req_now req) s of
               (s1, lastID) \<Rightarrow>
                 (let s2 = audit req (ru_id user) ''LESSON_CREATED'' ''lesson'' lastID s1
                  in (s2, respond 201 (LessonBody (find_lesson s2 lastID))))))"

definition lesson_updates ::
  "string option \<Rightarrow> string option \<Rightarrow> nat option \<Rightarrow> lesson_update list"
where
  "lesson_updates title content order_index =
     (case title of None \<Rightarrow> [] | Some v \<Rightarrow> [SetLessonTitle v]) @
     (case content of None \<Rightarrow> [] | Some v \<Rightarrow> [SetLessonContent v]) @
     (case order_index of None \<Rightarrow> [] | Some v \<Rightarrow> [SetLessonOrderIndex v])"

text \<open>
  In the two lesson handlers the parent course is read without a check for
  \<^verbatim>\<open>undefined\<close>: for a lesson whose course row is missing, \<^verbatim>\<open>course.instructor_id\<close>
  throws and the \<^verbatim>\<open>catch\<close> answers 500.
\<close>

definition put_lesson ::
  "request \<Rightarrow> req_user \<Rightarrow> nat \<Rightarrow> string option \<Rightarrow> string option \<Rightarrow> nat option \<Rightarrow> state
     \<Rightarrow> state \<times> response"
where
  "put_lesson req user i title content order_index s =
     (case find_lesson s i of
        None \<Rightarrow> (s, error_response 404 ''Lesson not found'')
      | Some lesson \<Rightarrow>
          (case find_course s (l_course_id lesson) of
             None \<Rightarrow> (s, error_response 500 ''Failed to update lesson'')
           | Some course \<Rightarrow>
               if c_instructor_id course \<noteq> ru_id user
               then (s, error_response 403 ''Not authorized to modify this lesson'')
               else
                 (let updates = lesson_updates title content order_index
                  in if length updates = 0
                     then (s, error_response 400 ''No fields to update'')
                     else
                       (let s1 = update_lesson updates i (req_now req) s;
                            s2 = audit req (ru_id user) ''LESSON_UPDATED'' ''lesson'' i s1
                        in (s2, respond 200 (LessonBody (find_lesson s2 i)))))))"

definition delete_lesson_handler :: "env \<Rightarrow> request \<Rightarrow> req_user \<Rightarrow> nat \<Rightarrow> state \<Rightarrow> state \<times> response" where
  "delete_lesson_handler env req user i s =
     (case find_lesson s i of
        None \<Rightarrow> (s, error_response 404 ''Lesson not found'')
      | Some lesson \<Rightarrow>
          (case find_course s (l_course_id lesson) of
             None \<Rightarrow> (s, error_response 500 ''Failed to delete lesson'')
           | Some course \<Rightarrow>
               if c_instructor_id course \<noteq> ru_id user
               then (s, error_response 403 ''Not authorized to delete this lesson'')
               else
                 (let s1 = delete_lesson (foreign_keys env) i s;
                      s2 = audit req (ru_id user) ''LESSON_DELETED'' ''lesson'' i s1
                  in (s2, respond 204 NoBody))))"

text \<open>
  Enrollment creation in two parts, split at the suspension point between the
  duplicate pre-check and the insert: \<open>post_enrollments_insert\<close> is the handler from the
  \<^verbatim>\<open>INSERT\<close> statement on, run on the state the insert meets. In \<open>post_enrollments\<close> no
  other request runs in between, so both parts see the same state.
\<close>

definition post_enrollments_insert :: "request \<Rightarrow> req_user \<Rightarrow> nat \<Rightarrow> state \<Rightarrow> state \<times> response" where
  "post_enrollments_insert req user course_id s =
     (case insert_enrollment (ru_id user) course_id (req_now req) s of
        None \<Rightarrow> (s, error_response 500 ''Failed to enroll in course'')
      | Some (s1, lastID) \<Rightarrow>
          (let s2 = audit req (ru_id user) ''ENROLLMENT_CREATED'' ''enrollment'' lastID s1
           in (s2, respond 201 (EnrollmentBody (find_enrollment s2 lastID)))))"

definition post_enrollments_precheck :: "req_user \<Rightarrow> nat \<Rightarrow> state \<Rightarrow> response option" where
  "post_enrollments_precheck user course_id s =
     (case find_course s course_id of
        None \<Rightarrow> Some (error_response 404 ''Course not found'')
      | Some course \<Rightarrow>
          (case find_enrollment_pair s (ru_id user) course_id of
             Some existingEnrollment \<Rightarrow>
               Some (error_response 409 ''Already enrolled in this course'')
           | None \<Rightarrow> None))"

definition post_enrollments :: "request \<Rightarrow> req_user \<Rightarrow> nat \<Rightarrow> state \<Rightarrow> state \<times> response" where
  "post_enrollments req user course_id s =
     (case post_enrollments_precheck user course_id s of
        Some r \<Rightarrow> (s, r)
      | None \<Rightarrow> post_enrollments_insert req user course_id s)"

definition delete_enrollment_handler :: "request \<Rightarrow> req_user \<Rightarrow> nat \<Rightarrow> state \<Rightarrow> state \<times> response" where
  "delete_enrollment_handler req user i s =
     (case find_enrollment_owned s i (ru_id user) of
        None \<Rightarrow> (s, error_response 404 ''Enrollment not found'')
      | Some enrollment \<Rightarrow>
          (let s1 = delete_enrollment i s;
               s2 = audit req (ru_id user) ''ENROLLMENT_DELETED'' ''enrollment'' i s1
           in (s2, respond 204 NoBody)))"

definition post_progress :: "request \<Rightarrow> req_user \<Rightarrow> nat \<Rightarrow> bool \<Rightarrow> state \<Rightarrow> state \<times> response" where
  "post_progress req user lesson_id completed s =
     (case find_lesson s lesson_id of
        None \<Rightarrow> (s, error_response 404 ''Lesson not found'')
      | Some lesson \<Rightarrow>
          (case find_enrollment_pair s (ru_id user) (l_course_id lesson) of
             None \<Rightarrow> (s, error_response 403 ''Must be enrolled in course to track progress'')
           | Some enrollment \<Rightarrow>
               (let completed_at = (if completed then Some (req_now req) else None)
                in case find_progress_pair s (ru_id user) lesson_id of
                     Some existingProgress \<Rightarrow>
                       (let s1 = update_progress (ru_id user) lesson_id completed completed_at s;
                            s2 = audit req (ru_id user) ''PROGRESS_UPDATED'' ''progress''
                                   (p_id existingProgress) s1
                        in (s2, respond 200
                                  (ProgressBody (find_progress_pair s2 (ru_id user) lesson_id))))
                   | None \<Rightarrow>
                       (case insert_progress (ru_id user) lesson_id completed completed_at s of
                          None \<Rightarrow> (s, error_response 500 ''Failed to update progress'')
                        | Some (s1, lastID) \<Rightarrow>
                            (let s2 = audit req (ru_id user) ''PROGRESS_UPDATED'' ''progress''
                                        lastID s1
                             in (s2, respond 200
                                       (ProgressBody
                                          (find_progress_pair s2 (ru_id user) lesson_id))))))))"

subsection \<open>The request pipeline\<close>

text \<open>
  A protected route: \<^verbatim>\<open>authenticateToken\<close>, then \<^verbatim>\<open>requireRole\<close>, then the validator
  chain with \<^verbatim>\<open>validate\<close>, then the handler. \<open>valid\<close> is the outcome of the route's
  validator chain on the request.
\<close>

definition protected ::
  "env \<Rightarrow> request \<Rightarrow> state \<Rightarrow> role list \<Rightarrow> bool \<Rightarrow> (req_user \<Rightarrow> state \<times> response)
     \<Rightarrow> state \<times> response"
where
  "protected env req s roles valid handler =
     (case authenticateToken env req s of
        Inl r \<Rightarrow> (s, r)
      | Inr user \<Rightarrow>
          if \<not> requireRole roles user
          then (s, error_response 403 ''Insufficient permissions'')
          else if \<not> valid then (s, validation_failed)
          else handler user)"

definition valid_opt :: "('a \<Rightarrow> bool) \<Rightarrow> 'a option \<Rightarrow> bool" where
  "valid_opt P v = (case v of None \<Rightarrow> True | Some x \<Rightarrow> P x)"

text \<open>
  The validator chain of each route, as the condition under which \<^verbatim>\<open>validate\<close> calls
  \<^verbatim>\<open>next()\<close>. An \<^verbatim>\<open>optional()\<close> field is checked only when it is present; \<^verbatim>\<open>isLength\<close>
  after \<^verbatim>\<open>trim()\<close> measures the trimmed value.
\<close>

definition validators :: "env \<Rightarrow> api_call \<Rightarrow> bool" where
  "validators env call =
     (case call of
        Register email password r \<Rightarrow>
          isEmail env email \<and> isLength 8 128 password \<and> parse_role r \<noteq> None
      | Login email password \<Rightarrow> isEmail env email \<and> isLength 1 128 password
      | CreateCourse title description \<Rightarrow>
          isLength 1 200 (js_trim title) \<and> isLength 1 5000 (js_trim description)
      | UpdateCourse i title description \<Rightarrow>
          1 \<le> i \<and> valid_opt (\<lambda>v. isLength 1 200 (js_trim v)) title
            \<and> valid_opt (\<lambda>v. isLength 1 5000 (js_trim v)) description
      | DeleteCourse i \<Rightarrow> 1 \<le> i
      | CreateLesson courseId title content order_index \<Rightarrow>
          1 \<le> courseId \<and> isLength 1 200 (js_trim title) \<and> isLength 1 50000 (js_trim content)
      | UpdateLesson i title content order_index \<Rightarrow>
          1 \<le> i \<and> valid_opt (\<lambda>v. isLength 1 200 (js_trim v)) title
            \<and> valid_opt (\<lambda>v. isLength 1 50000 (js_trim v)) content
      | DeleteLesson i \<Rightarrow> 1 \<le> i
      | CreateEnrollment course_id \<Rightarrow> 1 \<le> course_id
      | DeleteEnrollment i \<Rightarrow> 1 \<le> i
      | UpdateProgress lesson_id completed \<Rightarrow> 1 \<le> lesson_id)"

text \<open>
  The routes. The \<^verbatim>\<open>trim()\<close> and \<^verbatim>\<open>normalizeEmail()\<close> sanitizers replace the field of the
  body, so the handler receives the sanitized value. The two authentication routes have
  no token middleware; every other route is protected.
\<close>

definition route :: "env \<Rightarrow> request \<Rightarrow> state \<Rightarrow> state \<times> response" where
  "route env req s =
     (let valid = validators env (req_call req)
      in case req_call req of
        Register email password r \<Rightarrow>
          if valid
          then post_register env req (normalizeEmail env email) password (the (parse_role r)) s
          else (s, validation_failed)
      | Login email password \<Rightarrow>
          if valid
          then post_login env req (normalizeEmail env email) password s
          else (s, validation_failed)
      | CreateCourse title description \<Rightarrow>
          protected env req s [Instructor] valid
            (\<lambda>user. post_courses req user (js_trim title) (js_trim description) s)
      | UpdateCourse i title description \<Rightarrow>
          protected env req s [Instructor] valid
            (\<lambda>user. put_course req user i (map_option js_trim title)
                       (map_option js_trim description) s)
      | DeleteCourse i \<Rightarrow>
          protected env req s [Instructor] valid
            (\<lambda>user. delete_course_handler env req user i s)
      | CreateLesson courseId title content order_index \<Rightarrow>
          protected env req s [Instructor] valid
            (\<lambda>user. post_lessons req user courseId (js_trim title) (js_trim content)
                       order_index s)
      | UpdateLesson i title content order_index \<Rightarrow>
          protected env req s [Instructor] valid
            (\<lambda>user. put_lesson req user i (map_option js_trim title)
                       (map_option js_trim content) order_index s)
      | DeleteLesson i \<Rightarrow>
          protected env req s [Instructor] valid
            (\<lambda>user. delete_lesson_handler env req user i s)
      | CreateEnrollment course_id \<Rightarrow>
          protected env req s [Student] valid
            (\<lambda>user. post_enrollments req user course_id s)
      | DeleteEnrollment i \<Rightarrow>
          protected env req s [Student] valid
            (\<lambda>user. delete_enrollment_handler req user i s)
      | UpdateProgress lesson_id completed \<Rightarrow>
          protected env req s [Student] valid
            (\<lambda>user. post_progress req user lesson_id completed s))"

text \<open>
  \<^verbatim>\<open>app.use(perClientRateLimit)\<close> stands before every route: a request that the limiter
  rejects never reaches its route.
\<close>

definition handle :: "env \<Rightarrow> request \<Rightarrow> state \<Rightarrow> state \<times> response" where
  "handle env req s =
     (case perClientRateLimit req s of
        (s1, Some r) \<Rightarrow> (s1, r)
      | (s1, None) \<Rightarrow> route env req s1)"

subsection \<open>Traces of the server\<close>

text \<open>
  The server's life is a sequence of events: a request run through the pipeline, or a
  tick of the limiter's sweep timer.
\<close>

datatype event = Request request | Sweep int

fun step :: "env \<Rightarrow> event \<Rightarrow> state \<Rightarrow> state" where
  "step env (Request req) s = fst (handle env req s)"
| "step env (Sweep now) s = sweep now s"

definition run :: "env \<Rightarrow> state \<Rightarrow> event list \<Rightarrow> state" where
  "run env s es = fold (step env) es s"

fun event_time :: "event \<Rightarrow> int" where
  "event_time (Request req) = req_now req"
| "event_time (Sweep now) = now"

text \<open>The number of requests of one client in a trace.\<close>

definition hits :: "string \<Rightarrow> event list \<Rightarrow> nat" where
  "hits key es = length (filter (\<lambda>e. case e of Request req \<Rightarrow> clientKey req = key | Sweep t \<Rightarrow> False) es)"

text \<open>A time \<open>t\<close> lies in the window opened at \<open>t0\<close> when the limiter's test for expiry fails.\<close>

definition in_window :: "int \<Rightarrow> int \<Rightarrow> bool" where
  "in_window t0 t = (\<not> t - t0 > RATE_LIMIT_WINDOW_MS)"

text \<open>A request opens a window when its client has no entry or an expired one.\<close>

definition opens_window :: "request \<Rightarrow> state \<Rightarrow> bool" where
  "opens_window req s =
     (case rateLimiters s (clientKey req) of
        None \<Rightarrow> True
      | Some d \<Rightarrow> req_now req - ld_resetTime d > RATE_LIMIT_WINDOW_MS)"

subsection \<open>A small instance\<close>

text \<open>
  A toy token service for the examples: a token is the role claim, a \<open>#\<close>, and the user
  id in unary; the token \<open>expired\<close> is past its lifetime, anything else is malformed.
\<close>

definition ex_sign :: "int \<Rightarrow> payload \<Rightarrow> string" where
  "ex_sign now p =
     (case pl_role p of None \<Rightarrow> [] | Some r \<Rightarrow> r) @ ''#'' @
     replicate (case pl_userId p of None \<Rightarrow> 0 | Some n \<Rightarrow> n) (CHR ''1'')"

definition ex_verify :: "int \<Rightarrow> string \<Rightarrow> jwt_result" where
  "ex_verify now t =
     (if t = ''expired'' then TokenExpiredError
      else if CHR ''#'' \<in> set t
      then Verified \<lparr>pl_userId = Some (length (tl (dropWhile (\<lambda>c. c \<noteq> CHR ''#'') t))),
                     pl_role = Some (takeWhile (\<lambda>c. c \<noteq> CHR ''#'') t)\<rparr>
      else JsonWebTokenError)"

definition ex_env :: env where
  "ex_env =
     \<lparr>jwt_verify = ex_verify, jwt_sign = ex_sign,
      bcrypt_hash = (\<lambda>pw. ''hash:'' @ pw),
      bcrypt_compare = (\<lambda>pw h. h = ''hash:'' @ pw),
      isEmail = (\<lambda>e. CHR ''@'' \<in> set e),
      normalizeEmail = (\<lambda>e. e),
      foreign_keys = True\<rparr>"

text \<open>
  Two instructors (ids 1 and 2) and two students (ids 3 and 4); course 1 of instructor 1
  with lesson 1; student 3 is enrolled in course 1 (enrollment 1), student 4 is not.
\<close>

definition ex_user :: "nat \<Rightarrow> string \<Rightarrow> role \<Rightarrow> user_row" where
  "ex_user i e r =
     \<lparr>u_id = i, u_email = e, u_password_hash = ''hash:password1'', u_role = r,
      u_created_at = 0, u_updated_at = 0\<rparr>"

definition ex_state :: state where
  "ex_state =
     \<lparr>users = [ex_user 1 ''a@x.com'' Instructor, ex_user 2 ''b@x.com'' Instructor,
               ex_user 3 ''c@x.com'' Student, ex_user 4 ''d@x.com'' Student],
      courses = [\<lparr>c_id = 1, c_title = ''Intro'', c_description = ''d'', c_instructor_id = 1,
                  c_created_at = 0, c_updated_at = 0\<rparr>],
      lessons = [\<lparr>l_id = 1, l_course_id = 1, l_title = ''L1'', l_content = ''text'',
                  l_order_index = 0, l_created_at = 0, l_updated_at = 0\<rparr>],
      enrollments = [\<lparr>e_id = 1, e_student_id = 3, e_course_id = 1, e_enrolled_at = 0\<rparr>],
      progress = [],
      audit_log = [],
      seq_users = 4, seq_courses = 1, seq_lessons = 1, seq_enrollments = 1, seq_progress = 0,
      rateLimiters = (\<lambda>key. None)\<rparr>"

definition ex_request :: "string option \<Rightarrow> int \<Rightarrow> api_call \<Rightarrow> request" where
  "ex_request auth now call =
     \<lparr>req_ip = Some ''10.0.0.1'', req_remoteAddress = None, req_authorization = auth,
      req_now = now, req_audit_ok = True, req_call = call\<rparr>"

subsection \<open>Notions used in the properties\<close>

text \<open>The entity state: everything but the audit table.\<close>

definition entity_state :: "state \<Rightarrow> state" where
  "entity_state s = s\<lparr>audit_log := []\<rparr>"

text \<open>Two outcomes of a request agree when the responses and the entity states agree.\<close>

definition same_outcome :: "state \<times> response \<Rightarrow> state \<times> response \<Rightarrow> bool" where
  "same_outcome a b = (snd a = snd b \<and> entity_state (fst a) = entity_state (fst b))"

text \<open>
  The relation between the two completion columns of a progress row: \<^verbatim>\<open>completed_at\<close> is
  set exactly when \<^verbatim>\<open>completed\<close> is true.
\<close>

definition progress_row_ok :: "progress_row \<Rightarrow> bool" where
  "progress_row_ok p = (p_completed p = (p_completed_at p \<noteq> None))"

definition progress_inv :: "state \<Rightarrow> bool" where
  "progress_inv s = list_all progress_row_ok (progress s)"

text \<open>The value the progress handler writes to \<^verbatim>\<open>completed_at\<close>.\<close>

definition stamp :: "bool \<Rightarrow> request \<Rightarrow> int option" where
  "stamp completed req = (if completed then Some (req_now req) else None)"


text \<open>
  The example state after the stored role of user 3 has been changed from student to
  instructor (no route of the server does this; the row is changed in the store).
\<close>

definition ex_promoted :: state where
  "ex_promoted =
     ex_state\<lparr>users := map (\<lambda>u. if u_id u = 3 then u\<lparr>u_role := Instructor\<rparr> else u)
                          (users ex_state)\<rparr>"




text \<open>
  A request has been audited when the audit table has grown by exactly one entry, with
  the given action, a user id, the time and the address of the request.
\<close>

definition audited_with :: "request \<Rightarrow> string \<Rightarrow> state \<Rightarrow> state \<Rightarrow> bool" where
  "audited_with req action s s' =
     (audit_log s' \<noteq> [] \<and> butlast (audit_log s') = audit_log s
      \<and> (let e = last (audit_log s')
         in a_action e = action \<and> a_user_id e \<noteq> None
            \<and> a_timestamp e = req_now req \<and> a_ip_address e = req_ip req))"


text \<open>The example state with the client \<open>10.0.0.1\<close> at the ceiling of its window.\<close>

definition ex_limited :: state where
  "ex_limited =
     ex_state\<lparr>rateLimiters :=
        (\<lambda>key. if key = ''10.0.0.1''
               then Some \<lparr>ld_count = RATE_LIMIT_MAX_REQUESTS, ld_resetTime = 0\<rparr> else None)\<rparr>"

text \<open>
  The entry that the limiter stores for the client of a request: the stored entry,
  replaced by a fresh one when it is missing or expired, with its count incremented.
\<close>

definition next_entry :: "request \<Rightarrow> state \<Rightarrow> limiter_data" where
  "next_entry req s =
     (case rateLimiters s (clientKey req) of
        None \<Rightarrow> \<lparr>ld_count = 1, ld_resetTime = req_now req\<rparr>
      | Some d \<Rightarrow>
          if req_now req - ld_resetTime d > RATE_LIMIT_WINDOW_MS
          then \<lparr>ld_count = 1, ld_resetTime = req_now req\<rparr>
          else d\<lparr>ld_count := ld_count d + 1\<rparr>)"

section \<open>Properties\<close>

subsection \<open>Unfolding the model on concrete inputs\<close>

lemmas model_defs =
  handle_def route_def validators_def protected_def perClientRateLimit_def clientKey_def
  truthy_str_def
  authenticateToken_def bearer_token_def falsy_id_def requireRole_def
  auditLog_def audit_def respond_def error_response_def validation_failed_def
  isLength_def js_trim_def is_space_def valid_opt_def
  find_user_by_id_def find_user_by_email_def find_course_def find_lesson_def
  find_enrollment_def find_enrollment_pair_def find_enrollment_owned_def find_progress_pair_def
  insert_user_def insert_course_def insert_lesson_def insert_enrollment_def insert_progress_def
  update_progress_def update_course_def update_lesson_def
  delete_lesson_def delete_course_def delete_enrollment_def
  post_register_def post_login_def post_courses_def course_updates_def put_course_def
  delete_course_handler_def post_lessons_def lesson_updates_def put_lesson_def
  delete_lesson_handler_def post_enrollments_insert_def post_enrollments_precheck_def
  post_enrollments_def delete_enrollment_handler_def post_progress_def
  RATE_LIMIT_WINDOW_MS_def RATE_LIMIT_MAX_REQUESTS_def
  ex_sign_def ex_verify_def ex_env_def ex_user_def ex_state_def ex_request_def
  ex_promoted_def ex_limited_def entity_state_def progress_row_ok_def progress_inv_def
  stamp_def run_def hits_def audited_with_def
  in_window_def opens_window_def next_entry_def Let_def

subsection \<open>What the audit writer leaves alone\<close>

lemma auditLog_frame [simp]:
  "users (auditLog ok now u a rt ri ip s) = users s"
  "courses (auditLog ok now u a rt ri ip s) = courses s"
  "lessons (auditLog ok now u a rt ri ip s) = lessons s"
  "enrollments (auditLog ok now u a rt ri ip s) = enrollments s"
  "progress (auditLog ok now u a rt ri ip s) = progress s"
  "seq_users (auditLog ok now u a rt ri ip s) = seq_users s"
  "seq_courses (auditLog ok now u a rt ri ip s) = seq_courses s"
  "seq_lessons (auditLog ok now u a rt ri ip s) = seq_lessons s"
  "seq_enrollments (auditLog ok now u a rt ri ip s) = seq_enrollments s"
  "seq_progress (auditLog ok now u a rt ri ip s) = seq_progress s"
  "rateLimiters (auditLog ok now u a rt ri ip s) = rateLimiters s"
  by (simp_all add: auditLog_def)

lemma auditLog_entity [simp]: "entity_state (auditLog ok now u a rt ri ip s) = entity_state s"
  by (simp add: auditLog_def entity_state_def)

lemma audit_frame [simp]:
  "users (audit req u a rt ri s) = users s"
  "courses (audit req u a rt ri s) = courses s"
  "lessons (audit req u a rt ri s) = lessons s"
  "enrollments (audit req u a rt ri s) = enrollments s"
  "progress (audit req u a rt ri s) = progress s"
  "seq_users (audit req u a rt ri s) = seq_users s"
  "seq_courses (audit req u a rt ri s) = seq_courses s"
  "seq_lessons (audit req u a rt ri s) = seq_lessons s"
  "seq_enrollments (audit req u a rt ri s) = seq_enrollments s"
  "seq_progress (audit req u a rt ri s) = seq_progress s"
  "rateLimiters (audit req u a rt ri s) = rateLimiters s"
  "entity_state (audit req u a rt ri s) = entity_state s"
  by (simp_all add: audit_def)

lemma find_audit [simp]:
  "find_user_by_id (audit req u a rt ri s) = find_user_by_id s"
  "find_user_by_email (audit req u a rt ri s) = find_user_by_email s"
  "find_course (audit req u a rt ri s) = find_course s"
  "find_lesson (audit req u a rt ri s) = find_lesson s"
  "find_enrollment (audit req u a rt ri s) = find_enrollment s"
  "find_enrollment_pair (audit req u a rt ri s) = find_enrollment_pair s"
  "find_enrollment_owned (audit req u a rt ri s) = find_enrollment_owned s"
  "find_progress_pair (audit req u a rt ri s) = find_progress_pair s"
  by (simp_all add: fun_eq_iff find_user_by_id_def find_user_by_email_def find_course_def
      find_lesson_def find_enrollment_def find_enrollment_pair_def find_enrollment_owned_def
      find_progress_pair_def)

lemma audit_flag [simp]:
  "entity_state (audit (req\<lparr>req_audit_ok := b\<rparr>) u a rt ri s) = entity_state s"
  by simp

lemma req_flag [simp]:
  "req_now (req\<lparr>req_audit_ok := b\<rparr>) = req_now req"
  "req_ip (req\<lparr>req_audit_ok := b\<rparr>) = req_ip req"
  "req_call (req\<lparr>req_audit_ok := b\<rparr>) = req_call req"
  "req_authorization (req\<lparr>req_audit_ok := b\<rparr>) = req_authorization req"
  by simp_all

lemma so_post_courses: "same_outcome (post_courses (req\<lparr>req_audit_ok := b\<rparr>) u t d s) (post_courses req u t d s)"
  by (simp add: same_outcome_def post_courses_def Let_def split: prod.splits)

lemma so_put_course: "same_outcome (put_course (req\<lparr>req_audit_ok := b\<rparr>) u i t d s) (put_course req u i t d s)"
  by (simp add: same_outcome_def put_course_def Let_def split: prod.splits option.splits)

lemma so_post_progress: "same_outcome (post_progress (req\<lparr>req_audit_ok := b\<rparr>) u i c s) (post_progress req u i c s)"
  by (simp add: same_outcome_def post_progress_def Let_def split: prod.splits option.splits)

lemma so_post_register: "same_outcome (post_register env (req\<lparr>req_audit_ok := b\<rparr>) e p r s) (post_register env req e p r s)"
  by (simp add: same_outcome_def post_register_def Let_def split: prod.splits option.splits)

lemma so_post_login: "same_outcome (post_login env (req\<lparr>req_audit_ok := b\<rparr>) e p s) (post_login env req e p s)"
  by (simp add: same_outcome_def post_login_def Let_def split: prod.splits option.splits)

lemma so_delete_course: "same_outcome (delete_course_handler env (req\<lparr>req_audit_ok := b\<rparr>) u i s) (delete_course_handler env req u i s)"
  by (simp add: same_outcome_def delete_course_handler_def Let_def split: prod.splits option.splits)

lemma so_post_lessons: "same_outcome (post_lessons (req\<lparr>req_audit_ok := b\<rparr>) u c t d oi s) (post_lessons req u c t d oi s)"
  by (simp add: same_outcome_def post_lessons_def Let_def split: prod.splits option.splits)

lemma so_put_lesson: "same_outcome (put_lesson (req\<lparr>req_audit_ok := b\<rparr>) u i t d oi s) (put_lesson req u i t d oi s)"
  by (simp add: same_outcome_def put_lesson_def Let_def split: prod.splits option.splits)

lemma so_delete_lesson: "same_outcome (delete_lesson_handler env (req\<lparr>req_audit_ok := b\<rparr>) u i s) (delete_lesson_handler env req u i s)"
  by (simp add: same_outcome_def delete_lesson_handler_def Let_def split: prod.splits option.splits)

lemma so_post_enrollments: "same_outcome (post_enrollments (req\<lparr>req_audit_ok := b\<rparr>) u i s) (post_enrollments req u i s)"
  by (simp add: same_outcome_def post_enrollments_def post_enrollments_insert_def Let_def split: prod.splits option.splits)

lemma so_delete_enrollment: "same_outcome (delete_enrollment_handler (req\<lparr>req_audit_ok := b\<rparr>) u i s) (delete_enrollment_handler req u i s)"
  by (simp add: same_outcome_def delete_enrollment_handler_def Let_def split: prod.splits option.splits)

lemma same_outcome_refl [simp]: "same_outcome a a"
  by (simp add: same_outcome_def)

lemma auth_flag [simp]: "authenticateToken env (req\<lparr>req_audit_ok := b\<rparr>) s = authenticateToken env req s"
  by (simp add: authenticateToken_def split: option.splits)

lemma so_protected:
  assumes "\<And>u. same_outcome (h' u) (h u)"
  shows "same_outcome (protected env (req\<lparr>req_audit_ok := b\<rparr>) s roles v h') (protected env req s roles v h)"
  using assms by (simp add: protected_def split: sum.splits)

lemma so_route: "same_outcome (route env (req\<lparr>req_audit_ok := b\<rparr>) s) (route env req s)"
proof (cases "req_call req")
  case (Register e p r)
  then show ?thesis by (simp add: route_def so_post_register)
next
  case (Login e p)
  then show ?thesis by (simp add: route_def so_post_login)
next
  case (CreateCourse t d)
  then show ?thesis by (simp add: route_def so_protected so_post_courses)
next
  case (UpdateCourse i t d)
  then show ?thesis by (simp add: route_def so_protected so_put_course)
next
  case (DeleteCourse i)
  then show ?thesis by (simp add: route_def so_protected so_delete_course)
next
  case (CreateLesson c t d oi)
  then show ?thesis by (simp add: route_def so_protected so_post_lessons)
next
  case (UpdateLesson i t d oi)
  then show ?thesis by (simp add: route_def so_protected so_put_lesson)
next
  case (DeleteLesson i)
  then show ?thesis by (simp add: route_def so_protected so_delete_lesson)
next
  case (CreateEnrollment i)
  then show ?thesis by (simp add: route_def so_protected so_post_enrollments)
next
  case (DeleteEnrollment i)
  then show ?thesis by (simp add: route_def so_protected so_delete_enrollment)
next
  case (UpdateProgress i c)
  then show ?thesis by (simp add: route_def so_protected so_post_progress)
qed

lemma clientKey_flag [simp]: "clientKey (req\<lparr>req_audit_ok := b\<rparr>) = clientKey req"
  by (simp add: clientKey_def)

lemma limiter_flag:
  "snd (perClientRateLimit (req\<lparr>req_audit_ok := b\<rparr>) s) = snd (perClientRateLimit req s)"
  "entity_state (fst (perClientRateLimit (req\<lparr>req_audit_ok := b\<rparr>) s)) = entity_state (fst (perClientRateLimit req s))"
  by (simp_all add: perClientRateLimit_def Let_def)

lemma limiter_admits_flag:
  "snd (perClientRateLimit req s) = None \<Longrightarrow>
   fst (perClientRateLimit (req\<lparr>req_audit_ok := b\<rparr>) s) = fst (perClientRateLimit req s)"
  by (simp add: perClientRateLimit_def Let_def split: if_splits)

lemma so_handle: "same_outcome (handle env (req\<lparr>req_audit_ok := b\<rparr>) s) (handle env req s)"
proof (cases "perClientRateLimit req s")
  case (Pair s1 r)
  obtain s1' r' where flagged: "perClientRateLimit (req\<lparr>req_audit_ok := b\<rparr>) s = (s1', r')"
    by (cases "perClientRateLimit (req\<lparr>req_audit_ok := b\<rparr>) s")
  have r': "r' = r"
    using limiter_flag(1) [where req = req and s = s and b = b] Pair flagged by simp
  show ?thesis
  proof (cases r)
    case None
    have "s1' = s1"
      using limiter_admits_flag [where req = req and s = s and b = b] Pair flagged None
      by simp
    then show ?thesis
      using so_route [where env = env and req = req and b = b and s = s1] Pair flagged r' None
      by (simp add: handle_def)
  next
    case (Some x)
    have "entity_state s1' = entity_state s1"
      using limiter_flag(2) [where req = req and s = s and b = b] Pair flagged by simp
    then show ?thesis
      using Pair flagged r' Some by (simp add: handle_def same_outcome_def)
  qed
qed

subsection \<open>Audit failures and the outcome of a request\<close>

text \<open>
  C9. A failure of the audit write never reaches the caller and never changes the
  outcome of the operation: for every request, through the whole pipeline (rate limiter,
  authentication, role gate, validation, handler), the response and the resulting entity
  state (every table but the audit table, the id counters, the limiter map) are the same
  whether the storage engine accepts the audit insert or rejects it; and when it rejects
  it, the audit table is left as it was.
\<close>

theorem audit_failure_keeps_outcome:
  "snd (handle env (req\<lparr>req_audit_ok := False\<rparr>) s) =
     snd (handle env (req\<lparr>req_audit_ok := True\<rparr>) s)
   \<and> entity_state (fst (handle env (req\<lparr>req_audit_ok := False\<rparr>) s)) =
     entity_state (fst (handle env (req\<lparr>req_audit_ok := True\<rparr>) s))
   \<and> auditLog False now userId action resourceType resourceId ipAddress s = s"
proof -
  have "same_outcome (handle env (req\<lparr>req_audit_ok := False\<rparr>) s) (handle env req s)"
    by (rule so_handle)
  moreover have "same_outcome (handle env (req\<lparr>req_audit_ok := True\<rparr>) s) (handle env req s)"
    by (rule so_handle)
  ultimately show ?thesis
    by (simp add: same_outcome_def auditLog_def)
qed

theorem audit_failure_keeps_outcome_witness:
  "res_status (snd (handle ex_env
       ((ex_request (Some ''Bearer instructor#1'') 5 (CreateCourse ''T'' ''D''))\<lparr>req_audit_ok := False\<rparr>)
       ex_state)) = 201
   \<and> snd (handle ex_env
       ((ex_request (Some ''Bearer instructor#1'') 5 (CreateCourse ''T'' ''D''))\<lparr>req_audit_ok := False\<rparr>)
       ex_state) =
     snd (handle ex_env
       ((ex_request (Some ''Bearer instructor#1'') 5 (CreateCourse ''T'' ''D''))\<lparr>req_audit_ok := True\<rparr>)
       ex_state)
   \<and> audit_log (fst (handle ex_env
       ((ex_request (Some ''Bearer instructor#1'') 5 (CreateCourse ''T'' ''D''))\<lparr>req_audit_ok := False\<rparr>)
       ex_state)) = []
   \<and> length (audit_log (fst (handle ex_env
       ((ex_request (Some ''Bearer instructor#1'') 5 (CreateCourse ''T'' ''D''))\<lparr>req_audit_ok := True\<rparr>)
       ex_state))) = 1"
  using audit_failure_keeps_outcome
    [where env = ex_env and s = ex_state
       and req = "ex_request (Some ''Bearer instructor#1'') 5 (CreateCourse ''T'' ''D'')"]
  by (simp add: model_defs)

subsection \<open>Lookups by primary key\<close>

lemma find_Some_D: "find P xs = Some x \<Longrightarrow> x \<in> set xs \<and> P x"
  by (auto simp: find_Some_iff)

lemma distinct_id_eq:
  "distinct (map f xs) \<Longrightarrow> x \<in> set xs \<Longrightarrow> y \<in> set xs \<Longrightarrow> f x = f y \<Longrightarrow> x = y"
  by (meson distinct_map inj_onD)

lemma owned_is_found:
  assumes "distinct (map e_id (enrollments s))"
  shows "find_enrollment_owned s i u =
     (case find_enrollment s i of
        None \<Rightarrow> None
      | Some e \<Rightarrow> if e_student_id e = u then Some e else None)"
proof (cases "find_enrollment s i")
  case None
  then have "\<forall>e\<in>set (enrollments s). e_id e \<noteq> i"
    by (auto simp: find_enrollment_def find_None_iff)
  then have "find_enrollment_owned s i u = None"
    by (auto simp: find_enrollment_owned_def find_None_iff)
  with None show ?thesis by simp
next
  case (Some e)
  then have e: "e \<in> set (enrollments s)" "e_id e = i"
    using find_Some_D [of "\<lambda>e. e_id e = i" "enrollments s" e]
    by (simp_all add: find_enrollment_def)
  show ?thesis
  proof (cases "find_enrollment_owned s i u")
    case None
    then have "e_student_id e \<noteq> u"
      using e by (auto simp: find_enrollment_owned_def find_None_iff)
    with None Some show ?thesis by simp
  next
    case (Some e')
    then have "e' \<in> set (enrollments s)" "e_id e' = i" "e_student_id e' = u"
      using find_Some_D [of "\<lambda>e. e_id e = i \<and> e_student_id e = u" "enrollments s" e']
      by (simp_all add: find_enrollment_owned_def)
    then have "e' = e"
      using distinct_id_eq [OF assms, of e' e] e by simp
    with Some \<open>e_student_id e' = u\<close> \<open>find_enrollment s i = Some e\<close> show ?thesis by simp
  qed
qed

lemma delete_by_id_removes_row:
  assumes "distinct (map e_id (enrollments s))" and "e \<in> set (enrollments s)"
  shows "filter (\<lambda>x. e_id x \<noteq> e_id e) (enrollments s) = removeAll e (enrollments s)"
proof -
  have "\<forall>x\<in>set (enrollments s). (e_id x \<noteq> e_id e) = (e \<noteq> x)"
    using distinct_id_eq [OF assms(1)] assms(2) by auto
  then have "filter (\<lambda>x. e_id x \<noteq> e_id e) (enrollments s) = filter (\<lambda>x. e \<noteq> x) (enrollments s)"
    by (auto intro: filter_cong)
  then show ?thesis by (simp add: removeAll_filter_not_eq)
qed

subsection \<open>Deleting an enrollment\<close>

text \<open>
  C10. For an enrollment deletion by an authenticated student (ids being the table's
  primary key): the row is looked up by id and student together, so an id that does not
  exist and an id of another student's enrollment get the identical answer, 404
  ``Enrollment not found'', with the state untouched; the route never answers 403; and
  when the row belongs to the student the answer is 204 and exactly that row is removed.
\<close>

theorem enrollment_delete_owner_lookup:
  assumes auth: "authenticateToken env req s = Inr user"
    and role: "ru_role user = Student"
    and call: "req_call req = DeleteEnrollment i"
    and valid: "validators env (req_call req)"
    and pk: "distinct (map e_id (enrollments s))"
  shows "(case find_enrollment s i of
            None \<Rightarrow> route env req s = (s, error_response 404 ''Enrollment not found'')
          | Some e \<Rightarrow>
              if e_student_id e = ru_id user
              then snd (route env req s) = respond 204 NoBody
                \<and> fst (route env req s) =
                    audit req (ru_id user) ''ENROLLMENT_DELETED'' ''enrollment'' i
                      (s\<lparr>enrollments := removeAll e (enrollments s)\<rparr>)
              else route env req s = (s, error_response 404 ''Enrollment not found''))
         \<and> res_status (snd (route env req s)) \<noteq> 403"
proof -
  have r: "route env req s = delete_enrollment_handler req user i s"
    using auth role call valid by (simp add: route_def protected_def requireRole_def)
  show ?thesis
  proof (cases "find_enrollment s i")
    case None
    then show ?thesis
      using r owned_is_found [OF pk, of i "ru_id user"]
      by (simp add: delete_enrollment_handler_def error_response_def respond_def)
  next
    case (Some e)
    then have e: "e \<in> set (enrollments s)" "e_id e = i"
      using find_Some_D [of "\<lambda>e. e_id e = i" "enrollments s" e]
      by (simp_all add: find_enrollment_def)
    show ?thesis
      using r Some owned_is_found [OF pk, of i "ru_id user"]
        delete_by_id_removes_row [OF pk e(1)] e(2)
      by (simp add: delete_enrollment_handler_def error_response_def respond_def
          delete_enrollment_def Let_def)
  qed
qed

theorem enrollment_delete_owner_lookup_witness:
  "find_enrollment ex_state 7 = None
   \<and> map_option e_student_id (find_enrollment ex_state 1) = Some 3
   \<and> route ex_env (ex_request (Some ''Bearer student#1111'') 5 (DeleteEnrollment 7)) ex_state =
       (ex_state, error_response 404 ''Enrollment not found'')
   \<and> route ex_env (ex_request (Some ''Bearer student#1111'') 5 (DeleteEnrollment 1)) ex_state =
       (ex_state, error_response 404 ''Enrollment not found'')
   \<and> snd (route ex_env (ex_request (Some ''Bearer student#111'') 5 (DeleteEnrollment 1)) ex_state) =
       respond 204 NoBody
   \<and> enrollments (fst (route ex_env
        (ex_request (Some ''Bearer student#111'') 5 (DeleteEnrollment 1)) ex_state)) = []"
  using enrollment_delete_owner_lookup
    [where env = ex_env and s = ex_state and i = 7
       and req = "ex_request (Some ''Bearer student#1111'') 5 (DeleteEnrollment 7)"
       and user = "\<lparr>ru_id = 4, ru_email = ''d@x.com'', ru_role = Student\<rparr>"]
    enrollment_delete_owner_lookup
    [where env = ex_env and s = ex_state and i = 1
       and req = "ex_request (Some ''Bearer student#1111'') 5 (DeleteEnrollment 1)"
       and user = "\<lparr>ru_id = 4, ru_email = ''d@x.com'', ru_role = Student\<rparr>"]
    enrollment_delete_owner_lookup
    [where env = ex_env and s = ex_state and i = 1
       and req = "ex_request (Some ''Bearer student#111'') 5 (DeleteEnrollment 1)"
       and user = "\<lparr>ru_id = 3, ru_email = ''c@x.com'', ru_role = Student\<rparr>"]
  by (simp add: model_defs)

subsection \<open>Partial updates of courses and lessons\<close>

lemma find_map_update:
  assumes "\<And>x. key (f x) = key x"
  shows "find (\<lambda>x. key x = i) (map (\<lambda>x. if key x = i then f x else x) xs) =
         map_option f (find (\<lambda>x. key x = i) xs)"
  using assms by (induction xs) auto

lemma fold_course_update_id [simp]: "c_id (fold apply_course_update us c) = c_id c"
proof (induction us arbitrary: c)
  case Nil
  show ?case by simp
next
  case (Cons u us)
  show ?case by (cases u) (simp_all add: Cons.IH)
qed

lemma fold_lesson_update_id [simp]: "l_id (fold apply_lesson_update us l) = l_id l"
proof (induction us arbitrary: l)
  case Nil
  show ?case by simp
next
  case (Cons u us)
  show ?case by (cases u) (simp_all add: Cons.IH)
qed

lemma find_course_update:
  "find_course (update_course us i now s) i =
     map_option (\<lambda>c. (fold apply_course_update us c)\<lparr>c_updated_at := now\<rparr>) (find_course s i)"
  unfolding find_course_def update_course_def
  using find_map_update [where key = c_id and i = i and xs = "courses s"
      and f = "\<lambda>c. (fold apply_course_update us c)\<lparr>c_updated_at := now\<rparr>"]
  by simp

lemma find_lesson_update:
  "find_lesson (update_lesson us i now s) i =
     map_option (\<lambda>l. (fold apply_lesson_update us l)\<lparr>l_updated_at := now\<rparr>) (find_lesson s i)"
  unfolding find_lesson_def update_lesson_def
  using find_map_update [where key = l_id and i = i and xs = "lessons s"
      and f = "\<lambda>l. (fold apply_lesson_update us l)\<lparr>l_updated_at := now\<rparr>"]
  by simp

lemma update_course_rows:
  "update_course (course_updates title description) i now s =
     s\<lparr>courses :=
         map (\<lambda>x. if c_id x = i
                  then x\<lparr>c_title := (case title of None \<Rightarrow> c_title x | Some v \<Rightarrow> v),
                         c_description :=
                           (case description of None \<Rightarrow> c_description x | Some v \<Rightarrow> v),
                         c_updated_at := now\<rparr>
                  else x)
           (courses s)\<rparr>"
  by (cases title; cases description) (simp_all add: update_course_def course_updates_def)

lemma update_lesson_rows:
  "update_lesson (lesson_updates title content order_index) i now s =
     s\<lparr>lessons :=
         map (\<lambda>x. if l_id x = i
                  then x\<lparr>l_title := (case title of None \<Rightarrow> l_title x | Some v \<Rightarrow> v),
                         l_content := (case content of None \<Rightarrow> l_content x | Some v \<Rightarrow> v),
                         l_order_index :=
                           (case order_index of None \<Rightarrow> l_order_index x | Some v \<Rightarrow> v),
                         l_updated_at := now\<rparr>
                  else x)
           (lessons s)\<rparr>"
  by (cases title; cases content; cases order_index)
     (simp_all add: update_lesson_def lesson_updates_def)

lemma update_course_rows_trimmed:
  "update_course (course_updates (map_option js_trim title) (map_option js_trim description))
     i now s =
     s\<lparr>courses :=
         map (\<lambda>x. if c_id x = i
                  then x\<lparr>c_title := (case title of None \<Rightarrow> c_title x | Some v \<Rightarrow> js_trim v),
                         c_description :=
                           (case description of None \<Rightarrow> c_description x | Some v \<Rightarrow> js_trim v),
                         c_updated_at := now\<rparr>
                  else x)
           (courses s)\<rparr>"
  by (cases title; cases description) (simp_all add: update_course_rows)

lemma update_lesson_rows_trimmed:
  "update_lesson
     (lesson_updates (map_option js_trim title) (map_option js_trim content) order_index)
     i now s =
     s\<lparr>lessons :=
         map (\<lambda>x. if l_id x = i
                  then x\<lparr>l_title := (case title of None \<Rightarrow> l_title x | Some v \<Rightarrow> js_trim v),
                         l_content := (case content of None \<Rightarrow> l_content x | Some v \<Rightarrow> js_trim v),
                         l_order_index :=
                           (case order_index of None \<Rightarrow> l_order_index x | Some v \<Rightarrow> v),
                         l_updated_at := now\<rparr>
                  else x)
           (lessons s)\<rparr>"
  by (cases title; cases content; cases order_index) (simp_all add: update_lesson_rows)

lemma put_course_owner:
  assumes "find_course s i = Some c" and "c_instructor_id c = ru_id user"
  shows "put_course req user i title description s =
     (if title = None \<and> description = None
      then (s, error_response 400 ''No fields to update'')
      else (audit req (ru_id user) ''COURSE_UPDATED'' ''course'' i
              (update_course (course_updates title description) i (req_now req) s),
            respond 200 (CourseBody (Some
              (c\<lparr>c_title := (case title of None \<Rightarrow> c_title c | Some v \<Rightarrow> v),
                 c_description := (case description of None \<Rightarrow> c_description c | Some v \<Rightarrow> v),
                 c_updated_at := req_now req\<rparr>)))))"
  using assms
  by (cases title; cases description)
     (simp_all add: put_course_def course_updates_def find_course_update Let_def)

lemma put_lesson_owner:
  assumes "find_lesson s i = Some l" and "find_course s (l_course_id l) = Some c"
    and "c_instructor_id c = ru_id user"
  shows "put_lesson req user i title content order_index s =
     (if title = None \<and> content = None \<and> order_index = None
      then (s, error_response 400 ''No fields to update'')
      else (audit req (ru_id user) ''LESSON_UPDATED'' ''lesson'' i
              (update_lesson (lesson_updates title content order_index) i (req_now req) s),
            respond 200 (LessonBody (Some
              (l\<lparr>l_title := (case title of None \<Rightarrow> l_title l | Some v \<Rightarrow> v),
                 l_content := (case content of None \<Rightarrow> l_content l | Some v \<Rightarrow> v),
                 l_order_index := (case order_index of None \<Rightarrow> l_order_index l | Some v \<Rightarrow> v),
                 l_updated_at := req_now req\<rparr>)))))"
  using assms
  by (cases title; cases content; cases order_index)
     (simp_all add: put_lesson_def lesson_updates_def find_lesson_update Let_def)

lemma stored_course_after_update:
  assumes "find_course s i = Some c"
  shows "find_course
      (audit req u a rt ri (update_course (course_updates title description) i now s)) i =
     Some (c\<lparr>c_title := (case title of None \<Rightarrow> c_title c | Some v \<Rightarrow> v),
              c_description := (case description of None \<Rightarrow> c_description c | Some v \<Rightarrow> v),
              c_updated_at := now\<rparr>)"
  using assms
  by (cases title; cases description) (simp_all add: find_course_update course_updates_def)

lemma stored_lesson_after_update:
  assumes "find_lesson s i = Some l"
  shows "find_lesson
      (audit req u a rt ri (update_lesson (lesson_updates title content order_index) i now s)) i =
     Some (l\<lparr>l_title := (case title of None \<Rightarrow> l_title l | Some v \<Rightarrow> v),
              l_content := (case content of None \<Rightarrow> l_content l | Some v \<Rightarrow> v),
              l_order_index := (case order_index of None \<Rightarrow> l_order_index l | Some v \<Rightarrow> v),
              l_updated_at := now\<rparr>)"
  using assms
  by (cases title; cases content; cases order_index)
     (simp_all add: find_lesson_update lesson_updates_def)

lemma put_course_zero: "fst (put_course req user i None None s) = s
    \<and> res_status (snd (put_course req user i None None s)) \<in> {400, 403, 404}"
  by (simp add: put_course_def course_updates_def error_response_def respond_def
      split: option.splits)

lemma put_lesson_zero: "fst (put_lesson req user i None None None s) = s
    \<and> res_status (snd (put_lesson req user i None None None s)) \<in> {400, 403, 404, 500}"
  by (simp add: put_lesson_def lesson_updates_def error_response_def respond_def
      split: option.splits)

lemma protected_rejects:
  assumes "\<And>user. fst (h user) = s \<and> res_status (snd (h user)) \<in> A"
    and "{400, 401, 403} \<subseteq> A"
  shows "fst (protected env req s roles v h) = s
     \<and> res_status (snd (protected env req s roles v h)) \<in> A"
proof (cases "authenticateToken env req s")
  case (Inl r)
  then have "res_status r = 401"
    by (auto simp: authenticateToken_def error_response_def respond_def
        split: option.splits if_splits jwt_result.splits)
  with Inl assms(2) show ?thesis by (auto simp: protected_def)
next
  case (Inr user)
  with assms show ?thesis
    by (auto simp: protected_def validation_failed_def error_response_def respond_def)
qed

lemma route_zero_course:
  assumes "req_call req = UpdateCourse i None None"
  shows "fst (route env req s) = s
     \<and> res_status (snd (route env req s)) \<in> {400, 401, 403, 404, 500}"
proof -
  have "route env req s =
      protected env req s [Instructor] (validators env (req_call req))
        (\<lambda>user. put_course req user i None None s)"
    using assms by (simp add: route_def)
  moreover have "fst (protected env req s [Instructor] (validators env (req_call req))
        (\<lambda>user. put_course req user i None None s)) = s
     \<and> res_status (snd (protected env req s [Instructor] (validators env (req_call req))
        (\<lambda>user. put_course req user i None None s))) \<in> {400, 401, 403, 404, 500}"
  proof (rule protected_rejects)
    fix user
    show "fst (put_course req user i None None s) = s
       \<and> res_status (snd (put_course req user i None None s)) \<in> {400, 401, 403, 404, 500}"
      using put_course_zero [of req user i s] by auto
  qed simp
  ultimately show ?thesis by simp
qed

lemma route_zero_lesson:
  assumes "req_call req = UpdateLesson i None None None"
  shows "fst (route env req s) = s
     \<and> res_status (snd (route env req s)) \<in> {400, 401, 403, 404, 500}"
proof -
  have "route env req s =
      protected env req s [Instructor] (validators env (req_call req))
        (\<lambda>user. put_lesson req user i None None None s)"
    using assms by (simp add: route_def)
  moreover have "fst (protected env req s [Instructor] (validators env (req_call req))
        (\<lambda>user. put_lesson req user i None None None s)) = s
     \<and> res_status (snd (protected env req s [Instructor] (validators env (req_call req))
        (\<lambda>user. put_lesson req user i None None None s))) \<in> {400, 401, 403, 404, 500}"
  proof (rule protected_rejects)
    fix user
    show "fst (put_lesson req user i None None None s) = s
       \<and> res_status (snd (put_lesson req user i None None None s)) \<in> {400, 401, 403, 404, 500}"
      using put_lesson_zero [of req user i s] by auto
  qed simp
  ultimately show ?thesis by simp
qed

text \<open>
  C7. A course or lesson update that supplies none of the mutable fields never succeeds
  and never changes the state (the row and its \<^verbatim>\<open>updated_at\<close> included): whatever the
  token, the role or the target, the status is one of the rejections 400, 401, 403, 404,
  500. When the request passes the gates before the update step (an authenticated
  instructor who owns the target, a body that passes validation), the answer to zero
  fields is exactly 400 ``No fields to update'' with the state unchanged, and every
  non-empty subset of the fields is accepted: in the table every row with the target's id
  gets the trimmed new values of the supplied fields, keeps its other fields, and has
  \<^verbatim>\<open>updated_at\<close> set to the time of the request; every other row and every other table is
  as before, but for the one audit entry; the row stored under the id afterwards is the
  old row with exactly these changes; and the answer is 200 with that row.
\<close>

theorem partial_update_policy:
  "(req_call req = UpdateCourse i None None \<or> req_call req = UpdateLesson i None None None \<longrightarrow>
      fst (route env req s) = s
      \<and> res_status (snd (route env req s)) \<in> {400, 401, 403, 404, 500})
   \<and> (authenticateToken env req s = Inr user \<and> ru_role user = Instructor
        \<and> validators env (req_call req) \<longrightarrow>
        (req_call req = UpdateCourse i title description
           \<and> find_course s i = Some c \<and> c_instructor_id c = ru_id user \<longrightarrow>
           (if title = None \<and> description = None
            then route env req s = (s, error_response 400 ''No fields to update'')
            else route env req s =
                   (audit req (ru_id user) ''COURSE_UPDATED'' ''course'' i
                      (s\<lparr>courses :=
                           map (\<lambda>x. if c_id x = i
                                  then x\<lparr>c_title :=
                                           (case title of None \<Rightarrow> c_title x | Some v \<Rightarrow> js_trim v),
                                         c_description :=
                                           (case description of
                                              None \<Rightarrow> c_description x | Some v \<Rightarrow> js_trim v),
                                         c_updated_at := req_now req\<rparr>
                                  else x)
                             (courses s)\<rparr>),
                    respond 200 (CourseBody (Some
                      (c\<lparr>c_title := (case title of None \<Rightarrow> c_title c | Some v \<Rightarrow> js_trim v),
                         c_description :=
                           (case description of None \<Rightarrow> c_description c | Some v \<Rightarrow> js_trim v),
                         c_updated_at := req_now req\<rparr>))))
               \<and> find_course (fst (route env req s)) i =
                   Some (c\<lparr>c_title := (case title of None \<Rightarrow> c_title c | Some v \<Rightarrow> js_trim v),
                            c_description :=
                              (case description of None \<Rightarrow> c_description c | Some v \<Rightarrow> js_trim v),
                            c_updated_at := req_now req\<rparr>)))
        \<and> (req_call req = UpdateLesson i title content order_index
             \<and> find_lesson s i = Some l \<and> find_course s (l_course_id l) = Some c
             \<and> c_instructor_id c = ru_id user \<longrightarrow>
             (if title = None \<and> content = None \<and> order_index = None
              then route env req s = (s, error_response 400 ''No fields to update'')
              else route env req s =
                     (audit req (ru_id user) ''LESSON_UPDATED'' ''lesson'' i
                        (s\<lparr>lessons :=
                             map (\<lambda>x. if l_id x = i
                                    then x\<lparr>l_title :=
                                             (case title of None \<Rightarrow> l_title x | Some v \<Rightarrow> js_trim v),
                                           l_content :=
                                             (case content of
                                                None \<Rightarrow> l_content x | Some v \<Rightarrow> js_trim v),
                                           l_order_index :=
                                             (case order_index of
                                                None \<Rightarrow> l_order_index x | Some v \<Rightarrow> v),
                                           l_updated_at := req_now req\<rparr>
                                    else x)
                               (lessons s)\<rparr>),
                      respond 200 (LessonBody (Some
                        (l\<lparr>l_title := (case title of None \<Rightarrow> l_title l | Some v \<Rightarrow> js_trim v),
                           l_content :=
                             (case content of None \<Rightarrow> l_content l | Some v \<Rightarrow> js_trim v),
                           l_order_index :=
                             (case order_index of None \<Rightarrow> l_order_index l | Some v \<Rightarrow> v),
                           l_updated_at := req_now req\<rparr>))))
                 \<and> find_lesson (fst (route env req s)) i =
                     Some (l\<lparr>l_title := (case title of None \<Rightarrow> l_title l | Some v \<Rightarrow> js_trim v),
                              l_content :=
                                (case content of None \<Rightarrow> l_content l | Some v \<Rightarrow> js_trim v),
                              l_order_index :=
                                (case order_index of None \<Rightarrow> l_order_index l | Some v \<Rightarrow> v),
                              l_updated_at := req_now req\<rparr>))))"
proof (intro conjI impI)
  assume "req_call req = UpdateCourse i None None \<or> req_call req = UpdateLesson i None None None"
  then show "fst (route env req s) = s"
    and "res_status (snd (route env req s)) \<in> {400, 401, 403, 404, 500}"
    using route_zero_course [of req i env s] route_zero_lesson [of req i env s]
    by blast+
next
  assume a: "authenticateToken env req s = Inr user \<and> ru_role user = Instructor
      \<and> validators env (req_call req)"
  assume b: "req_call req = UpdateCourse i title description
      \<and> find_course s i = Some c \<and> c_instructor_id c = ru_id user"
  have r: "route env req s =
      put_course req user i (map_option js_trim title) (map_option js_trim description) s"
    using a b by (simp add: route_def protected_def requireRole_def)
  have owner: "put_course req user i (map_option js_trim title)
        (map_option js_trim description) s =
      (if title = None \<and> description = None
       then (s, error_response 400 ''No fields to update'')
       else (audit req (ru_id user) ''COURSE_UPDATED'' ''course'' i
               (update_course
                  (course_updates (map_option js_trim title) (map_option js_trim description))
                  i (req_now req) s),
             respond 200 (CourseBody (Some
               (c\<lparr>c_title := (case title of None \<Rightarrow> c_title c | Some v \<Rightarrow> js_trim v),
                  c_description :=
                    (case description of None \<Rightarrow> c_description c | Some v \<Rightarrow> js_trim v),
                  c_updated_at := req_now req\<rparr>)))))"
    using b put_course_owner [where s = s and i = i and c = c and user = user and req = req
        and title = "map_option js_trim title" and description = "map_option js_trim description"]
    by (cases title; cases description) simp_all
  have stored: "find_course
      (audit req (ru_id user) ''COURSE_UPDATED'' ''course'' i
         (update_course
            (course_updates (map_option js_trim title) (map_option js_trim description))
            i (req_now req) s)) i =
      Some (c\<lparr>c_title := (case title of None \<Rightarrow> c_title c | Some v \<Rightarrow> js_trim v),
               c_description :=
                 (case description of None \<Rightarrow> c_description c | Some v \<Rightarrow> js_trim v),
               c_updated_at := req_now req\<rparr>)"
    using b stored_course_after_update [where s = s and i = i and c = c
        and title = "map_option js_trim title" and description = "map_option js_trim description"]
    by (cases title; cases description) simp_all
  show "if title = None \<and> description = None
      then route env req s = (s, error_response 400 ''No fields to update'')
      else route env req s =
             (audit req (ru_id user) ''COURSE_UPDATED'' ''course'' i
                (s\<lparr>courses :=
                     map (\<lambda>x. if c_id x = i
                            then x\<lparr>c_title :=
                                     (case title of None \<Rightarrow> c_title x | Some v \<Rightarrow> js_trim v),
                                   c_description :=
                                     (case description of
                                        None \<Rightarrow> c_description x | Some v \<Rightarrow> js_trim v),
                                   c_updated_at := req_now req\<rparr>
                            else x)
                       (courses s)\<rparr>),
              respond 200 (CourseBody (Some
                (c\<lparr>c_title := (case title of None \<Rightarrow> c_title c | Some v \<Rightarrow> js_trim v),
                   c_description :=
                     (case description of None \<Rightarrow> c_description c | Some v \<Rightarrow> js_trim v),
                   c_updated_at := req_now req\<rparr>))))
         \<and> find_course (fst (route env req s)) i =
             Some (c\<lparr>c_title := (case title of None \<Rightarrow> c_title c | Some v \<Rightarrow> js_trim v),
                      c_description :=
                        (case description of None \<Rightarrow> c_description c | Some v \<Rightarrow> js_trim v),
                      c_updated_at := req_now req\<rparr>)"
  proof (cases "title = None \<and> description = None")
    case True
    then show ?thesis using r owner by simp
  next
    case False
    have "route env req s =
        (audit req (ru_id user) ''COURSE_UPDATED'' ''course'' i
           (update_course
              (course_updates (map_option js_trim title) (map_option js_trim description))
              i (req_now req) s),
         respond 200 (CourseBody (Some
           (c\<lparr>c_title := (case title of None \<Rightarrow> c_title c | Some v \<Rightarrow> js_trim v),
              c_description :=
                (case description of None \<Rightarrow> c_description c | Some v \<Rightarrow> js_trim v),
              c_updated_at := req_now req\<rparr>))))"
      using r owner False by simp
    then show ?thesis
      using False stored by (auto simp: update_course_rows_trimmed)
  qed
next
  assume a: "authenticateToken env req s = Inr user \<and> ru_role user = Instructor
      \<and> validators env (req_call req)"
  assume b: "req_call req = UpdateLesson i title content order_index
      \<and> find_lesson s i = Some l \<and> find_course s (l_course_id l) = Some c
      \<and> c_instructor_id c = ru_id user"
  have r: "route env req s =
      put_lesson req user i (map_option js_trim title) (map_option js_trim content) order_index s"
    using a b by (simp add: route_def protected_def requireRole_def)
  have owner: "put_lesson req user i (map_option js_trim title) (map_option js_trim content)
        order_index s =
      (if title = None \<and> content = None \<and> order_index = None
       then (s, error_response 400 ''No fields to update'')
       else (audit req (ru_id user) ''LESSON_UPDATED'' ''lesson'' i
               (update_lesson
                  (lesson_updates (map_option js_trim title) (map_option js_trim content)
                     order_index)
                  i (req_now req) s),
             respond 200 (LessonBody (Some
               (l\<lparr>l_title := (case title of None \<Rightarrow> l_title l | Some v \<Rightarrow> js_trim v),
                  l_content := (case content of None \<Rightarrow> l_content l | Some v \<Rightarrow> js_trim v),
                  l_order_index :=
                    (case order_index of None \<Rightarrow> l_order_index l | Some v \<Rightarrow> v),
                  l_updated_at := req_now req\<rparr>)))))"
    using b put_lesson_owner [where s = s and i = i and c = c and l = l and user = user
        and req = req and title = "map_option js_trim title"
        and content = "map_option js_trim content" and order_index = order_index]
    by (cases title; cases content; cases order_index) simp_all
  have stored: "find_lesson
      (audit req (ru_id user) ''LESSON_UPDATED'' ''lesson'' i
         (update_lesson
            (lesson_updates (map_option js_trim title) (map_option js_trim content) order_index)
            i (req_now req) s)) i =
      Some (l\<lparr>l_title := (case title of None \<Rightarrow> l_title l | Some v \<Rightarrow> js_trim v),
               l_content := (case content of None \<Rightarrow> l_content l | Some v \<Rightarrow> js_trim v),
               l_order_index := (case order_index of None \<Rightarrow> l_order_index l | Some v \<Rightarrow> v),
               l_updated_at := req_now req\<rparr>)"
    using b stored_lesson_after_update [where s = s and i = i and l = l
        and title = "map_option js_trim title" and content = "map_option js_trim content"
        and order_index = order_index]
    by (cases title; cases content; cases order_index) simp_all
  show "if title = None \<and> content = None \<and> order_index = None
      then route env req s = (s, error_response 400 ''No fields to update'')
      else route env req s =
             (audit req (ru_id user) ''LESSON_UPDATED'' ''lesson'' i
                (s\<lparr>lessons :=
                     map (\<lambda>x. if l_id x = i
                            then x\<lparr>l_title :=
                                     (case title of None \<Rightarrow> l_title x | Some v \<Rightarrow> js_trim v),
                                   l_content :=
                                     (case content of
                                        None \<Rightarrow> l_content x | Some v \<Rightarrow> js_trim v),
                                   l_order_index :=
                                     (case order_index of
                                        None \<Rightarrow> l_order_index x | Some v \<Rightarrow> v),
                                   l_updated_at := req_now req\<rparr>
                            else x)
                       (lessons s)\<rparr>),
              respond 200 (LessonBody (Some
                (l\<lparr>l_title := (case title of None \<Rightarrow> l_title l | Some v \<Rightarrow> js_trim v),
                   l_content :=
                     (case content of None \<Rightarrow> l_content l | Some v \<Rightarrow> js_trim v),
                   l_order_index :=
                     (case order_index of None \<Rightarrow> l_order_index l | Some v \<Rightarrow> v),
                   l_updated_at := req_now req\<rparr>))))
         \<and> find_lesson (fst (route env req s)) i =
             Some (l\<lparr>l_title := (case title of None \<Rightarrow> l_title l | Some v \<Rightarrow> js_trim v),
                      l_content :=
                        (case content of None \<Rightarrow> l_content l | Some v \<Rightarrow> js_trim v),
                      l_order_index :=
                        (case order_index of None \<Rightarrow> l_order_index l | Some v \<Rightarrow> v),
                      l_updated_at := req_now req\<rparr>)"
  proof (cases "title = None \<and> content = None \<and> order_index = None")
    case True
    then show ?thesis using r owner by simp
  next
    case False
    have "route env req s =
        (audit req (ru_id user) ''LESSON_UPDATED'' ''lesson'' i
           (update_lesson
              (lesson_updates (map_option js_trim title) (map_option js_trim content)
                 order_index)
              i (req_now req) s),
         respond 200 (LessonBody (Some
           (l\<lparr>l_title := (case title of None \<Rightarrow> l_title l | Some v \<Rightarrow> js_trim v),
              l_content := (case content of None \<Rightarrow> l_content l | Some v \<Rightarrow> js_trim v),
              l_order_index :=
                (case order_index of None \<Rightarrow> l_order_index l | Some v \<Rightarrow> v),
              l_updated_at := req_now req\<rparr>))))"
      using r owner False by simp
    then show ?thesis
      using False stored by (auto simp: update_lesson_rows_trimmed)
  qed
qed

theorem partial_update_policy_witness:
  "route ex_env (ex_request (Some ''Bearer instructor#1'') 5 (UpdateCourse 1 None None)) ex_state =
     (ex_state, error_response 400 ''No fields to update'')
   \<and> snd (route ex_env
        (ex_request (Some ''Bearer instructor#1'') 5 (UpdateLesson 1 (Some '' New '') None (Some 3)))
        ex_state) =
     respond 200 (LessonBody (Some
       \<lparr>l_id = 1, l_course_id = 1, l_title = ''New'', l_content = ''text'', l_order_index = 3,
        l_created_at = 0, l_updated_at = 5\<rparr>))
   \<and> lessons (fst (route ex_env
        (ex_request (Some ''Bearer instructor#1'') 5 (UpdateLesson 1 (Some '' New '') None (Some 3)))
        ex_state)) =
     [\<lparr>l_id = 1, l_course_id = 1, l_title = ''New'', l_content = ''text'', l_order_index = 3,
       l_created_at = 0, l_updated_at = 5\<rparr>]
   \<and> courses (fst (route ex_env
        (ex_request (Some ''Bearer instructor#1'') 7 (UpdateCourse 1 None (Some [CHR 0xA0, CHR ''n''])))
        ex_state)) =
     [\<lparr>c_id = 1, c_title = ''Intro'', c_description = ''n'', c_instructor_id = 1,
       c_created_at = 0, c_updated_at = 7\<rparr>]"
  using partial_update_policy
    [where env = ex_env and s = ex_state and i = 1
       and req = "ex_request (Some ''Bearer instructor#1'') 5 (UpdateCourse 1 None None)"
       and user = "\<lparr>ru_id = 1, ru_email = ''a@x.com'', ru_role = Instructor\<rparr>"
       and title = None and description = None
       and c = "\<lparr>c_id = 1, c_title = ''Intro'', c_description = ''d'', c_instructor_id = 1,
                  c_created_at = 0, c_updated_at = 0\<rparr>"]
    partial_update_policy
    [where env = ex_env and s = ex_state and i = 1
       and req = "ex_request (Some ''Bearer instructor#1'') 5
                    (UpdateLesson 1 (Some '' New '') None (Some 3))"
       and user = "\<lparr>ru_id = 1, ru_email = ''a@x.com'', ru_role = Instructor\<rparr>"
       and title = "Some '' New ''" and content = None and order_index = "Some 3"
       and l = "\<lparr>l_id = 1, l_course_id = 1, l_title = ''L1'', l_content = ''text'',
                  l_order_index = 0, l_created_at = 0, l_updated_at = 0\<rparr>"
       and c = "\<lparr>c_id = 1, c_title = ''Intro'', c_description = ''d'', c_instructor_id = 1,
                  c_created_at = 0, c_updated_at = 0\<rparr>"]
    partial_update_policy
    [where env = ex_env and s = ex_state and i = 1
       and req = "ex_request (Some ''Bearer instructor#1'') 7
                    (UpdateCourse 1 None (Some [CHR 0xA0, CHR ''n'']))"
       and user = "\<lparr>ru_id = 1, ru_email = ''a@x.com'', ru_role = Instructor\<rparr>"
       and title = None and description = "Some [CHR 0xA0, CHR ''n'']"
       and c = "\<lparr>c_id = 1, c_title = ''Intro'', c_description = ''d'', c_instructor_id = 1,
                  c_created_at = 0, c_updated_at = 0\<rparr>"]
  by (simp add: model_defs)

text \<open>
  A value that is only whitespace, the no-break space included, is trimmed to the empty
  string and fails the length check: the update is answered 400 by \<^verbatim>\<open>validate\<close> and
  nothing is stored.
\<close>

lemma blank_title_is_rejected:
  "route ex_env
     (ex_request (Some ''Bearer instructor#1'') 5 (UpdateCourse 1 (Some [CHR 0xA0, CHR '' '']) None))
     ex_state = (ex_state, validation_failed)"
  by (simp add: model_defs)

subsection \<open>Absence and ownership of a course\<close>

text \<open>
  C5, as the code has it. For a valid update or delete of a course by an authenticated
  instructor, absence is tested before ownership: a course that does not exist gives 404
  ``Course not found'' and an unchanged state, whoever asks; a course that exists and
  belongs to another instructor gives 403 and an unchanged state; the owner gets 200, 204
  or 400. So the status does tell a forbidden instructor whether the course exists.
\<close>

theorem course_mutation_checks_in_order:
  assumes auth: "authenticateToken env req s = Inr user"
    and role: "ru_role user = Instructor"
    and valid: "validators env (req_call req)"
    and call: "req_call req = UpdateCourse i title description \<or> req_call req = DeleteCourse i"
  shows "(case find_course s i of
            None \<Rightarrow> route env req s = (s, error_response 404 ''Course not found'')
          | Some course \<Rightarrow>
              if c_instructor_id course \<noteq> ru_id user
              then fst (route env req s) = s \<and> res_status (snd (route env req s)) = 403
              else res_status (snd (route env req s)) \<in> {200, 204, 400})"
proof -
  have r: "route env req s =
      (if req_call req = DeleteCourse i then delete_course_handler env req user i s
       else put_course req user i (map_option js_trim title) (map_option js_trim description) s)"
    using auth role valid call by (auto simp: route_def protected_def requireRole_def)
  show ?thesis
    unfolding r
    by (simp add: put_course_def delete_course_handler_def error_response_def respond_def
        Let_def split: option.splits)
qed

theorem course_mutation_checks_in_order_witness:
  "route ex_env (ex_request (Some ''Bearer instructor#11'') 5 (DeleteCourse 7)) ex_state =
     (ex_state, error_response 404 ''Course not found'')
   \<and> route ex_env (ex_request (Some ''Bearer instructor#11'') 5 (DeleteCourse 1)) ex_state =
     (ex_state, error_response 403 ''Not authorized to delete this course'')
   \<and> res_status (snd (route ex_env
        (ex_request (Some ''Bearer instructor#1'') 5 (UpdateCourse 1 (Some ''T'') None)) ex_state)) = 200"
  using course_mutation_checks_in_order
    [where env = ex_env and s = ex_state and i = 7
       and req = "ex_request (Some ''Bearer instructor#11'') 5 (DeleteCourse 7)"
       and user = "\<lparr>ru_id = 2, ru_email = ''b@x.com'', ru_role = Instructor\<rparr>"]
    course_mutation_checks_in_order
    [where env = ex_env and s = ex_state and i = 1
       and req = "ex_request (Some ''Bearer instructor#11'') 5 (DeleteCourse 1)"
       and user = "\<lparr>ru_id = 2, ru_email = ''b@x.com'', ru_role = Instructor\<rparr>"]
    course_mutation_checks_in_order
    [where env = ex_env and s = ex_state and i = 1 and title = "Some ''T''" and description = None
       and req = "ex_request (Some ''Bearer instructor#1'') 5 (UpdateCourse 1 (Some ''T'') None)"
       and user = "\<lparr>ru_id = 1, ru_email = ''a@x.com'', ru_role = Instructor\<rparr>"]
  by (simp add: model_defs)

text \<open>
  The claim as stated fails: instructor 2 addresses course 1 of instructor 1 and the
  missing course 7, and the statuses differ (403 against 404) for update and for delete.
\<close>

theorem course_existence_is_revealed:
  "find_course ex_state 7 = None
   \<and> map_option c_instructor_id (find_course ex_state 1) = Some 1
   \<and> authenticateToken ex_env (ex_request (Some ''Bearer instructor#11'') 5 (DeleteCourse 1)) ex_state =
       Inr \<lparr>ru_id = 2, ru_email = ''b@x.com'', ru_role = Instructor\<rparr>
   \<and> res_status (snd (route ex_env
        (ex_request (Some ''Bearer instructor#11'') 5 (UpdateCourse 1 (Some ''T'') None)) ex_state)) = 403
   \<and> res_status (snd (route ex_env
        (ex_request (Some ''Bearer instructor#11'') 5 (UpdateCourse 7 (Some ''T'') None)) ex_state)) = 404
   \<and> res_status (snd (route ex_env
        (ex_request (Some ''Bearer instructor#11'') 5 (DeleteCourse 1)) ex_state)) = 403
   \<and> res_status (snd (route ex_env
        (ex_request (Some ''Bearer instructor#11'') 5 (DeleteCourse 7)) ex_state)) = 404
   \<and> res_status (snd (route ex_env
        (ex_request (Some ''Bearer instructor#11'') 5 (DeleteCourse 1)) ex_state)) \<noteq>
     res_status (snd (route ex_env
        (ex_request (Some ''Bearer instructor#11'') 5 (DeleteCourse 7)) ex_state))"
  by (simp add: model_defs)

subsection \<open>The progress upsert\<close>

lemma find_map_where:
  assumes "\<And>x. P (f x) = P x"
  shows "find P (map (\<lambda>x. if P x then f x else x) xs) = map_option f (find P xs)"
  using assms by (induction xs) auto

lemma find_append_new: "find P xs = None \<Longrightarrow> P r \<Longrightarrow> find P (xs @ [r]) = Some r"
  by (induction xs) (auto split: if_splits)

lemma find_progress_update:
  "find_progress_pair (update_progress u l c cat s) u l =
     map_option (\<lambda>p. p\<lparr>p_completed := c, p_completed_at := cat\<rparr>) (find_progress_pair s u l)"
  unfolding find_progress_pair_def update_progress_def
  using find_map_where [where P = "\<lambda>p. p_student_id p = u \<and> p_lesson_id p = l"
      and f = "\<lambda>p. p\<lparr>p_completed := c, p_completed_at := cat\<rparr>" and xs = "progress s"]
  by simp

lemma post_progress_enrolled:
  assumes "find_lesson s lid = Some lesson"
    and "find_enrollment_pair s (ru_id user) (l_course_id lesson) = Some e"
  shows "post_progress req user lid c s =
     (case find_progress_pair s (ru_id user) lid of
        Some ex \<Rightarrow>
          (audit req (ru_id user) ''PROGRESS_UPDATED'' ''progress'' (p_id ex)
             (update_progress (ru_id user) lid c (stamp c req) s),
           respond 200 (ProgressBody (Some (ex\<lparr>p_completed := c, p_completed_at := stamp c req\<rparr>))))
      | None \<Rightarrow>
          (audit req (ru_id user) ''PROGRESS_UPDATED'' ''progress'' (Suc (seq_progress s))
             (s\<lparr>progress := progress s @
                  [\<lparr>p_id = Suc (seq_progress s), p_student_id = ru_id user, p_lesson_id = lid,
                    p_completed = c, p_completed_at = stamp c req\<rparr>],
                seq_progress := Suc (seq_progress s)\<rparr>),
           respond 200 (ProgressBody (Some
              \<lparr>p_id = Suc (seq_progress s), p_student_id = ru_id user, p_lesson_id = lid,
               p_completed = c, p_completed_at = stamp c req\<rparr>))))"
proof (cases "find_progress_pair s (ru_id user) lid")
  case None
  then have "find_progress_pair
      (s\<lparr>progress := progress s @
            [\<lparr>p_id = Suc (seq_progress s), p_student_id = ru_id user, p_lesson_id = lid,
              p_completed = c, p_completed_at = stamp c req\<rparr>],
         seq_progress := Suc (seq_progress s)\<rparr>) (ru_id user) lid =
      Some \<lparr>p_id = Suc (seq_progress s), p_student_id = ru_id user, p_lesson_id = lid,
            p_completed = c, p_completed_at = stamp c req\<rparr>"
    by (simp add: find_progress_pair_def find_append_new)
  with None assms show ?thesis
    by (simp add: post_progress_def insert_progress_def stamp_def Let_def)
next
  case (Some ex)
  with assms show ?thesis
    by (simp add: post_progress_def stamp_def Let_def find_progress_update)
qed

lemma post_progress_keeps_gates:
  "find_lesson (fst (post_progress req user lid c s)) = find_lesson s"
  "find_enrollment_pair (fst (post_progress req user lid c s)) = find_enrollment_pair s"
  by (simp_all add: post_progress_def insert_progress_def update_progress_def Let_def
      find_lesson_def find_enrollment_pair_def fun_eq_iff split: option.splits)

lemma update_progress_twice:
  "update_progress u l c cat (update_progress u l c' cat' s) = update_progress u l c cat s"
  by (simp add: update_progress_def comp_def cong: map_cong)

lemma map_where_none:
  "find P xs = None \<Longrightarrow> map (\<lambda>x. if P x then f x else x) xs = xs"
  by (induction xs) (auto split: if_splits)

lemma upsert_same_values:
  assumes "post_progress reqa user lid c s = (sa, ra)"
    and "find_lesson s lid = Some lesson"
    and "find_enrollment_pair s (ru_id user) (l_course_id lesson) = Some e"
  shows "progress (update_progress (ru_id user) lid c (stamp c reqa) sa) = progress sa"
proof (cases "find_progress_pair s (ru_id user) lid")
  case None
  then have "map (\<lambda>p. if p_student_id p = ru_id user \<and> p_lesson_id p = lid
                     then p\<lparr>p_completed := c, p_completed_at := stamp c reqa\<rparr> else p) (progress s)
       = progress s"
    unfolding find_progress_pair_def by (rule map_where_none)
  then show ?thesis
    using assms None post_progress_enrolled [OF assms(2,3), of reqa c]
    by (auto simp: update_progress_def)
next
  case (Some ex)
  then show ?thesis
    using assms post_progress_enrolled [OF assms(2,3), of reqa c]
    by (auto simp: update_progress_def comp_def cong: map_cong)
qed

text \<open>
  C6, as the code has it. For an enrolled student and an existing lesson, two
  submissions in a row address one row. After the first, the row stored for the pair
  (student, lesson) is the row of the first response, with \<^verbatim>\<open>completed\<close> as submitted and
  \<^verbatim>\<open>completed_at\<close> the time of the submission or null. The second submission rewrites the
  rows of the pair in place and adds none: the row stored afterwards, and the row of the
  second response, is the row of the first with \<^verbatim>\<open>completed\<close> as submitted and
  \<^verbatim>\<open>completed_at\<close> set to the time of the second submission when it is true and to null
  when it is false; every other row of the table is as before. So \<^verbatim>\<open>completed=false\<close>
  after \<^verbatim>\<open>true\<close> clears the timestamp, and \<^verbatim>\<open>false\<close> twice changes nothing; but \<^verbatim>\<open>true\<close>
  twice re-stamps \<^verbatim>\<open>completed_at\<close>: the two responses are equal exactly when the two
  submissions carry the same time.
\<close>

theorem progress_upsert_repeat:
  assumes lesson: "find_lesson s lid = Some lesson"
    and enrolled: "find_enrollment_pair s (ru_id user) (l_course_id lesson) = Some e"
    and first: "post_progress reqa user lid ca s = (sa, ra)"
    and second: "post_progress reqb user lid cb sa = (sb, rb)"
  shows "\<exists>p. ra = respond 200 (ProgressBody (Some p))
           \<and> p_student_id p = ru_id user \<and> p_lesson_id p = lid
           \<and> p_completed p = ca
           \<and> p_completed_at p = (if ca then Some (req_now reqa) else None)
           \<and> rb = respond 200 (ProgressBody (Some
                    (p\<lparr>p_completed := cb,
                       p_completed_at := (if cb then Some (req_now reqb) else None)\<rparr>)))
           \<and> length (progress sb) = length (progress sa)
           \<and> (ca \<and> cb \<longrightarrow> (rb = ra) = (req_now reqb = req_now reqa))
           \<and> (\<not> ca \<and> \<not> cb \<longrightarrow> rb = ra \<and> progress sb = progress sa)
           \<and> find_progress_pair sa (ru_id user) lid = Some p
           \<and> progress sa =
               (if find_progress_pair s (ru_id user) lid = None then progress s @ [p]
                else map (\<lambda>x. if p_student_id x = ru_id user \<and> p_lesson_id x = lid
                              then x\<lparr>p_completed := ca,
                                     p_completed_at :=
                                       (if ca then Some (req_now reqa) else None)\<rparr>
                              else x)
                       (progress s))
           \<and> find_progress_pair sb (ru_id user) lid =
               Some (p\<lparr>p_completed := cb,
                       p_completed_at := (if cb then Some (req_now reqb) else None)\<rparr>)
           \<and> sb = audit reqb (ru_id user) ''PROGRESS_UPDATED'' ''progress'' (p_id p)
                    (sa\<lparr>progress :=
                         map (\<lambda>x. if p_student_id x = ru_id user \<and> p_lesson_id x = lid
                                  then x\<lparr>p_completed := cb,
                                         p_completed_at :=
                                           (if cb then Some (req_now reqb) else None)\<rparr>
                                  else x)
                           (progress sa)\<rparr>)"
proof -
  have gates: "find_lesson sa lid = Some lesson"
    "find_enrollment_pair sa (ru_id user) (l_course_id lesson) = Some e"
    using post_progress_keeps_gates [of reqa user lid ca s] first lesson enrolled by simp_all
  obtain p where p: "ra = respond 200 (ProgressBody (Some p))"
    "find_progress_pair sa (ru_id user) lid = Some p"
    "p_student_id p = ru_id user" "p_lesson_id p = lid"
    "p_completed p = ca" "p_completed_at p = stamp ca reqa"
    "progress sa =
       (if find_progress_pair s (ru_id user) lid = None then progress s @ [p]
        else map (\<lambda>x. if p_student_id x = ru_id user \<and> p_lesson_id x = lid
                      then x\<lparr>p_completed := ca, p_completed_at := stamp ca reqa\<rparr>
                      else x)
               (progress s))"
  proof (cases "find_progress_pair s (ru_id user) lid")
    case None
    let ?p = "\<lparr>p_id = Suc (seq_progress s), p_student_id = ru_id user, p_lesson_id = lid,
               p_completed = ca, p_completed_at = stamp ca reqa\<rparr>"
    have out: "sa = audit reqa (ru_id user) ''PROGRESS_UPDATED'' ''progress''
          (Suc (seq_progress s))
          (s\<lparr>progress := progress s @ [?p], seq_progress := Suc (seq_progress s)\<rparr>)"
      "ra = respond 200 (ProgressBody (Some ?p))"
      using first post_progress_enrolled [OF lesson enrolled, of reqa ca] None by simp_all
    show ?thesis
    proof (rule that [of ?p])
      show "ra = respond 200 (ProgressBody (Some ?p))" by (rule out(2))
      show "find_progress_pair sa (ru_id user) lid = Some ?p"
        using out(1) None by (simp add: find_progress_pair_def find_append_new)
      show "progress sa =
          (if find_progress_pair s (ru_id user) lid = None then progress s @ [?p]
           else map (\<lambda>x. if p_student_id x = ru_id user \<and> p_lesson_id x = lid
                         then x\<lparr>p_completed := ca, p_completed_at := stamp ca reqa\<rparr>
                         else x)
                  (progress s))"
        using out(1) None by simp
    qed simp_all
  next
    case (Some ex)
    let ?p = "ex\<lparr>p_completed := ca, p_completed_at := stamp ca reqa\<rparr>"
    have ex: "p_student_id ex = ru_id user" "p_lesson_id ex = lid"
      using Some by (auto simp: find_progress_pair_def find_Some_iff)
    have out: "sa = audit reqa (ru_id user) ''PROGRESS_UPDATED'' ''progress'' (p_id ex)
          (update_progress (ru_id user) lid ca (stamp ca reqa) s)"
      "ra = respond 200 (ProgressBody (Some ?p))"
      using first post_progress_enrolled [OF lesson enrolled, of reqa ca] Some by simp_all
    show ?thesis
    proof (rule that [of ?p])
      show "ra = respond 200 (ProgressBody (Some ?p))" by (rule out(2))
      show "find_progress_pair sa (ru_id user) lid = Some ?p"
        using out(1) Some by (simp add: find_progress_update)
      show "progress sa =
          (if find_progress_pair s (ru_id user) lid = None then progress s @ [?p]
           else map (\<lambda>x. if p_student_id x = ru_id user \<and> p_lesson_id x = lid
                         then x\<lparr>p_completed := ca, p_completed_at := stamp ca reqa\<rparr>
                         else x)
                  (progress s))"
        using out(1) Some by (simp add: update_progress_def)
    qed (simp_all add: ex)
  qed
  have second': "sb = audit reqb (ru_id user) ''PROGRESS_UPDATED'' ''progress'' (p_id p)
        (update_progress (ru_id user) lid cb (stamp cb reqb) sa)"
    "rb = respond 200 (ProgressBody (Some (p\<lparr>p_completed := cb, p_completed_at := stamp cb reqb\<rparr>)))"
    using second post_progress_enrolled [OF gates, of reqb cb] p(2) by simp_all
  have len: "length (progress sb) = length (progress sa)"
    using second'(1) by (simp add: update_progress_def)
  have same: "cb = ca \<Longrightarrow> stamp cb reqb = stamp ca reqa \<Longrightarrow> progress sb = progress sa"
    using upsert_same_values [OF first lesson enrolled] second'(1) by simp
  have "(p\<lparr>p_completed := cb, p_completed_at := stamp cb reqb\<rparr> = p) =
      (cb = p_completed p \<and> stamp cb reqb = p_completed_at p)"
    by (cases p) auto
  then have eq: "(rb = ra) = (cb = ca \<and> stamp cb reqb = stamp ca reqa)"
    using p(1,5,6) second'(2) by (simp add: respond_def)
  have stored: "find_progress_pair sb (ru_id user) lid =
      Some (p\<lparr>p_completed := cb, p_completed_at := stamp cb reqb\<rparr>)"
    using second'(1) p(2) by (simp add: find_progress_update)
  have rows: "sb = audit reqb (ru_id user) ''PROGRESS_UPDATED'' ''progress'' (p_id p)
      (sa\<lparr>progress :=
           map (\<lambda>x. if p_student_id x = ru_id user \<and> p_lesson_id x = lid
                    then x\<lparr>p_completed := cb, p_completed_at := stamp cb reqb\<rparr>
                    else x)
             (progress sa)\<rparr>)"
    using second'(1) by (simp add: update_progress_def)
  have first_part: "ra = respond 200 (ProgressBody (Some p))
      \<and> p_student_id p = ru_id user \<and> p_lesson_id p = lid
      \<and> p_completed p = ca
      \<and> p_completed_at p = (if ca then Some (req_now reqa) else None)
      \<and> rb = respond 200 (ProgressBody (Some
               (p\<lparr>p_completed := cb,
                  p_completed_at := (if cb then Some (req_now reqb) else None)\<rparr>)))
      \<and> length (progress sb) = length (progress sa)
      \<and> (ca \<and> cb \<longrightarrow> (rb = ra) = (req_now reqb = req_now reqa))
      \<and> (\<not> ca \<and> \<not> cb \<longrightarrow> rb = ra \<and> progress sb = progress sa)"
    using p second'(2) len same eq by (auto simp: stamp_def)
  have second_part: "find_progress_pair sa (ru_id user) lid = Some p
      \<and> progress sa =
          (if find_progress_pair s (ru_id user) lid = None then progress s @ [p]
           else map (\<lambda>x. if p_student_id x = ru_id user \<and> p_lesson_id x = lid
                         then x\<lparr>p_completed := ca,
                                p_completed_at := (if ca then Some (req_now reqa) else None)\<rparr>
                         else x)
                  (progress s))
      \<and> find_progress_pair sb (ru_id user) lid =
          Some (p\<lparr>p_completed := cb,
                  p_completed_at := (if cb then Some (req_now reqb) else None)\<rparr>)
      \<and> sb = audit reqb (ru_id user) ''PROGRESS_UPDATED'' ''progress'' (p_id p)
               (sa\<lparr>progress :=
                    map (\<lambda>x. if p_student_id x = ru_id user \<and> p_lesson_id x = lid
                             then x\<lparr>p_completed := cb,
                                    p_completed_at :=
                                      (if cb then Some (req_now reqb) else None)\<rparr>
                             else x)
                      (progress sa)\<rparr>)"
    using p(2,7) stored rows unfolding stamp_def by blast
  show ?thesis
    using first_part second_part by (intro exI [of _ p]) blast
qed

theorem progress_upsert_repeat_witness:
  "snd (post_progress (ex_request None 1000 (UpdateProgress 1 True))
          \<lparr>ru_id = 3, ru_email = ''c@x.com'', ru_role = Student\<rparr> 1 True ex_state) =
     respond 200 (ProgressBody (Some
       \<lparr>p_id = 1, p_student_id = 3, p_lesson_id = 1, p_completed = True,
        p_completed_at = Some 1000\<rparr>))
   \<and> snd (post_progress (ex_request None 2000 (UpdateProgress 1 False))
          \<lparr>ru_id = 3, ru_email = ''c@x.com'', ru_role = Student\<rparr> 1 False
          (fst (post_progress (ex_request None 1000 (UpdateProgress 1 True))
                  \<lparr>ru_id = 3, ru_email = ''c@x.com'', ru_role = Student\<rparr> 1 True ex_state))) =
     respond 200 (ProgressBody (Some
       \<lparr>p_id = 1, p_student_id = 3, p_lesson_id = 1, p_completed = False,
        p_completed_at = None\<rparr>))
   \<and> progress (fst (post_progress (ex_request None 1000 (UpdateProgress 1 True))
          \<lparr>ru_id = 3, ru_email = ''c@x.com'', ru_role = Student\<rparr> 1 True ex_state)) =
     [\<lparr>p_id = 1, p_student_id = 3, p_lesson_id = 1, p_completed = True,
       p_completed_at = Some 1000\<rparr>]
   \<and> progress (fst (post_progress (ex_request None 2000 (UpdateProgress 1 False))
          \<lparr>ru_id = 3, ru_email = ''c@x.com'', ru_role = Student\<rparr> 1 False
          (fst (post_progress (ex_request None 1000 (UpdateProgress 1 True))
                  \<lparr>ru_id = 3, ru_email = ''c@x.com'', ru_role = Student\<rparr> 1 True ex_state)))) =
     [\<lparr>p_id = 1, p_student_id = 3, p_lesson_id = 1, p_completed = False,
       p_completed_at = None\<rparr>]"
  using progress_upsert_repeat
    [where s = ex_state and lid = 1 and ca = True and cb = False
       and user = "\<lparr>ru_id = 3, ru_email = ''c@x.com'', ru_role = Student\<rparr>"
       and reqa = "ex_request None 1000 (UpdateProgress 1 True)"
       and reqb = "ex_request None 2000 (UpdateProgress 1 False)"
       and lesson = "\<lparr>l_id = 1, l_course_id = 1, l_title = ''L1'', l_content = ''text'',
                       l_order_index = 0, l_created_at = 0, l_updated_at = 0\<rparr>"
       and e = "\<lparr>e_id = 1, e_student_id = 3, e_course_id = 1, e_enrolled_at = 0\<rparr>"
       and sa = "fst (post_progress (ex_request None 1000 (UpdateProgress 1 True))
                  \<lparr>ru_id = 3, ru_email = ''c@x.com'', ru_role = Student\<rparr> 1 True ex_state)"
       and ra = "snd (post_progress (ex_request None 1000 (UpdateProgress 1 True))
                  \<lparr>ru_id = 3, ru_email = ''c@x.com'', ru_role = Student\<rparr> 1 True ex_state)"
       and sb = "fst (post_progress (ex_request None 2000 (UpdateProgress 1 False))
          \<lparr>ru_id = 3, ru_email = ''c@x.com'', ru_role = Student\<rparr> 1 False
          (fst (post_progress (ex_request None 1000 (UpdateProgress 1 True))
                  \<lparr>ru_id = 3, ru_email = ''c@x.com'', ru_role = Student\<rparr> 1 True ex_state)))"
       and rb = "snd (post_progress (ex_request None 2000 (UpdateProgress 1 False))
          \<lparr>ru_id = 3, ru_email = ''c@x.com'', ru_role = Student\<rparr> 1 False
          (fst (post_progress (ex_request None 1000 (UpdateProgress 1 True))
                  \<lparr>ru_id = 3, ru_email = ''c@x.com'', ru_role = Student\<rparr> 1 True ex_state)))"]
  by (simp add: model_defs)

text \<open>
  The claim as stated fails: student 3 submits \<^verbatim>\<open>completed=true\<close> for lesson 1 at time
  1000 and again at time 2000. The second response shows \<^verbatim>\<open>completed_at\<close> 2000 where the
  first showed 1000, and the stored row has changed.
\<close>

theorem repeated_completion_restamps:
  "snd (route ex_env (ex_request (Some ''Bearer student#111'') 1000 (UpdateProgress 1 True))
          ex_state) =
     respond 200 (ProgressBody (Some
       \<lparr>p_id = 1, p_student_id = 3, p_lesson_id = 1, p_completed = True,
        p_completed_at = Some 1000\<rparr>))
   \<and> snd (route ex_env (ex_request (Some ''Bearer student#111'') 2000 (UpdateProgress 1 True))
          (fst (route ex_env
                  (ex_request (Some ''Bearer student#111'') 1000 (UpdateProgress 1 True))
                  ex_state))) =
     respond 200 (ProgressBody (Some
       \<lparr>p_id = 1, p_student_id = 3, p_lesson_id = 1, p_completed = True,
        p_completed_at = Some 2000\<rparr>))
   \<and> snd (route ex_env (ex_request (Some ''Bearer student#111'') 2000 (UpdateProgress 1 True))
          (fst (route ex_env
                  (ex_request (Some ''Bearer student#111'') 1000 (UpdateProgress 1 True))
                  ex_state))) \<noteq>
     snd (route ex_env (ex_request (Some ''Bearer student#111'') 1000 (UpdateProgress 1 True))
          ex_state)
   \<and> progress (fst (route ex_env
          (ex_request (Some ''Bearer student#111'') 2000 (UpdateProgress 1 True))
          (fst (route ex_env
                  (ex_request (Some ''Bearer student#111'') 1000 (UpdateProgress 1 True))
                  ex_state)))) \<noteq>
     progress (fst (route ex_env
                  (ex_request (Some ''Bearer student#111'') 1000 (UpdateProgress 1 True))
                  ex_state))"
  by (simp add: model_defs)

subsection \<open>The completion invariant\<close>

lemma inv_audit [simp]: "progress_inv (audit req u a rt ri s) = progress_inv s"
  by (simp add: progress_inv_def)

lemma stamp_ok [simp]:
  "progress_row_ok (p\<lparr>p_completed := c, p_completed_at := (if c then Some t else None)\<rparr>)"
  by (simp add: progress_row_ok_def)

lemma inv_post_progress: "progress_inv s \<Longrightarrow> progress_inv (fst (post_progress req user lid c s))"
  by (auto simp: post_progress_def insert_progress_def update_progress_def progress_inv_def
      progress_row_ok_def list_all_iff Let_def split: option.splits)

lemma inv_post_register: "progress_inv s \<Longrightarrow> progress_inv (fst (post_register env req e pw r s))"
  by (auto simp: post_register_def insert_user_def progress_inv_def Let_def split: option.splits)

lemma inv_post_login: "progress_inv s \<Longrightarrow> progress_inv (fst (post_login env req e pw s))"
  by (auto simp: post_login_def Let_def split: option.splits)

lemma inv_post_courses: "progress_inv s \<Longrightarrow> progress_inv (fst (post_courses req user t d s))"
  by (auto simp: post_courses_def insert_course_def progress_inv_def Let_def)

lemma inv_put_course: "progress_inv s \<Longrightarrow> progress_inv (fst (put_course req user i t d s))"
  by (auto simp: put_course_def update_course_def progress_inv_def Let_def split: option.splits)

lemma inv_delete_course: "progress_inv s \<Longrightarrow> progress_inv (fst (delete_course_handler env req user i s))"
  by (auto simp: delete_course_handler_def delete_course_def progress_inv_def list_all_iff Let_def
      split: option.splits)

lemma inv_post_lessons: "progress_inv s \<Longrightarrow> progress_inv (fst (post_lessons req user i t d oi s))"
  by (auto simp: post_lessons_def insert_lesson_def progress_inv_def Let_def split: option.splits)

lemma inv_put_lesson: "progress_inv s \<Longrightarrow> progress_inv (fst (put_lesson req user i t d oi s))"
  by (auto simp: put_lesson_def update_lesson_def progress_inv_def Let_def split: option.splits)

lemma inv_delete_lesson: "progress_inv s \<Longrightarrow> progress_inv (fst (delete_lesson_handler env req user i s))"
  by (auto simp: delete_lesson_handler_def delete_lesson_def progress_inv_def list_all_iff Let_def
      split: option.splits)

lemma inv_post_enrollments: "progress_inv s \<Longrightarrow> progress_inv (fst (post_enrollments req user i s))"
  by (auto simp: post_enrollments_def post_enrollments_insert_def insert_enrollment_def
      progress_inv_def Let_def split: option.splits)

lemma inv_delete_enrollment:
  "progress_inv s \<Longrightarrow> progress_inv (fst (delete_enrollment_handler req user i s))"
  by (auto simp: delete_enrollment_handler_def delete_enrollment_def progress_inv_def Let_def
      split: option.splits)

lemma inv_protected:
  assumes "progress_inv s" and "\<And>user. progress_inv (fst (h user))"
  shows "progress_inv (fst (protected env req s roles v h))"
  using assms by (simp add: protected_def split: sum.splits)

lemma inv_route:
  assumes "progress_inv s"
  shows "progress_inv (fst (route env req s))"
proof (cases "req_call req")
  case (Register e pw r)
  then show ?thesis using assms by (simp add: route_def inv_post_register)
next
  case (Login e pw)
  then show ?thesis using assms by (simp add: route_def inv_post_login)
next
  case (CreateCourse t d)
  then show ?thesis using assms by (simp add: route_def inv_protected inv_post_courses)
next
  case (UpdateCourse i t d)
  then show ?thesis using assms by (simp add: route_def inv_protected inv_put_course)
next
  case (DeleteCourse i)
  then show ?thesis using assms by (simp add: route_def inv_protected inv_delete_course)
next
  case (CreateLesson i t d oi)
  then show ?thesis using assms by (simp add: route_def inv_protected inv_post_lessons)
next
  case (UpdateLesson i t d oi)
  then show ?thesis using assms by (simp add: route_def inv_protected inv_put_lesson)
next
  case (DeleteLesson i)
  then show ?thesis using assms by (simp add: route_def inv_protected inv_delete_lesson)
next
  case (CreateEnrollment i)
  then show ?thesis using assms by (simp add: route_def inv_protected inv_post_enrollments)
next
  case (DeleteEnrollment i)
  then show ?thesis using assms by (simp add: route_def inv_protected inv_delete_enrollment)
next
  case (UpdateProgress i c)
  then show ?thesis using assms by (simp add: route_def inv_protected inv_post_progress)
qed

lemma inv_limiter: "progress_inv (fst (perClientRateLimit req s)) = progress_inv s"
  by (simp add: perClientRateLimit_def progress_inv_def Let_def)

lemma inv_handle:
  assumes "progress_inv s"
  shows "progress_inv (fst (handle env req s))"
proof (cases "perClientRateLimit req s")
  case (Pair s1 r)
  then have "progress_inv s1"
    using assms inv_limiter [of req s] by simp
  then show ?thesis
    using Pair inv_route [of s1 env req] by (cases r) (simp_all add: handle_def)
qed

lemma inv_step:
  assumes "progress_inv s"
  shows "progress_inv (step env e s)"
proof (cases e)
  case (Request req)
  then show ?thesis using assms by (simp add: inv_handle)
next
  case (Sweep now)
  have "progress (sweep now s) = progress s" by (simp add: sweep_def)
  with Sweep assms show ?thesis by (simp add: progress_inv_def)
qed

lemma inv_run: "progress_inv s \<Longrightarrow> progress_inv (run env s es)"
  unfolding run_def by (induction es arbitrary: s) (simp_all add: inv_step)

lemma upsert_rows_ok:
  "list_all progress_row_ok
     (filter (\<lambda>p. p \<notin> set (progress s)) (progress (fst (post_progress req user lid c s))))"
  by (auto simp: post_progress_def insert_progress_def update_progress_def
      progress_row_ok_def list_all_iff Let_def split: option.splits)

lemma upsert_response_ok:
  assumes "snd (post_progress req user lid c s) = respond st (ProgressBody (Some p))"
  shows "progress_row_ok p \<and> p_completed p = c"
proof -
  from assms obtain lesson e where g: "find_lesson s lid = Some lesson"
      "find_enrollment_pair s (ru_id user) (l_course_id lesson) = Some e"
    by (auto simp: post_progress_def respond_def error_response_def split: option.splits)
  show ?thesis
    using assms post_progress_enrolled [OF g, of req c]
    by (auto simp: respond_def stamp_def progress_row_ok_def split: option.splits if_splits)
qed

text \<open>
  C8. Every progress row that the upsert produces or modifies has \<^verbatim>\<open>completed_at\<close> set
  exactly when \<^verbatim>\<open>completed\<close> is true: this holds of every row of the table after the
  upsert that was not in the table before, and of the row in the response, whose
  \<^verbatim>\<open>completed\<close> is the submitted value. And the invariant that all rows of the table are
  so is preserved by every sequence of server events, upserts and all other requests
  alike.
\<close>

theorem progress_completed_at_invariant:
  "(progress_inv s \<longrightarrow> progress_inv (run env s es))
   \<and> list_all progress_row_ok
       (filter (\<lambda>p. p \<notin> set (progress s)) (progress (fst (post_progress req user lid c s))))
   \<and> (snd (post_progress req user lid c s) = respond st (ProgressBody (Some p)) \<longrightarrow>
        p_completed p = c \<and> (p_completed_at p \<noteq> None) = c)"
  using inv_run [of s env es] upsert_rows_ok [of s req user lid c]
    upsert_response_ok [of req user lid c s st p]
  by (auto simp: progress_row_ok_def)

theorem progress_completed_at_invariant_witness:
  "progress_inv ex_state
   \<and> progress (run ex_env ex_state
        [Request (ex_request (Some ''Bearer student#111'') 1000 (UpdateProgress 1 True)),
         Request (ex_request (Some ''Bearer student#111'') 2000 (UpdateProgress 1 False)),
         Request (ex_request (Some ''Bearer student#111'') 3000 (UpdateProgress 1 True))]) =
       [\<lparr>p_id = 1, p_student_id = 3, p_lesson_id = 1, p_completed = True,
         p_completed_at = Some 3000\<rparr>]
   \<and> progress_inv (run ex_env ex_state
        [Request (ex_request (Some ''Bearer student#111'') 1000 (UpdateProgress 1 True)),
         Request (ex_request (Some ''Bearer student#111'') 2000 (UpdateProgress 1 False)),
         Request (ex_request (Some ''Bearer student#111'') 3000 (UpdateProgress 1 True))])"
  using progress_completed_at_invariant
    [where s = ex_state and env = ex_env
       and es = "[Request (ex_request (Some ''Bearer student#111'') 1000 (UpdateProgress 1 True)),
         Request (ex_request (Some ''Bearer student#111'') 2000 (UpdateProgress 1 False)),
         Request (ex_request (Some ''Bearer student#111'') 3000 (UpdateProgress 1 True))]"]
  by (simp add: model_defs)

subsection \<open>The role used by the role gate\<close>









subsection \<open>Duplicate enrollments\<close>

text \<open>
  C3, as the code has it. For an enrollment creation by an authenticated student for an
  existing course: when the pair (student, course) is already enrolled at the pre-check,
  the answer is 409 ``Already enrolled in this course'' and nothing changes; otherwise
  the handler goes on to the insert and, undisturbed, answers 201 and the pair is
  enrolled. When the insert meets a state \<open>s'\<close> in which the pair exists (a concurrent
  request has inserted it after the pre-check), the \<^verbatim>\<open>UNIQUE\<close> constraint rejects the
  insert, the handler's \<^verbatim>\<open>catch\<close> answers 500 ``Failed to enroll in course'', and the
  state stays as it is.
\<close>

theorem enrollment_duplicate_outcomes:
  assumes "authenticateToken env req s = Inr user" and "ru_role user = Student"
    and "req_call req = CreateEnrollment course_id" and "validators env (req_call req)"
    and "find_course s course_id = Some course"
  shows "(if find_enrollment_pair s (ru_id user) course_id \<noteq> None
          then route env req s = (s, error_response 409 ''Already enrolled in this course'')
          else route env req s = post_enrollments_insert req user course_id s
             \<and> res_status (snd (route env req s)) = 201
             \<and> find_enrollment_pair (fst (route env req s)) (ru_id user) course_id \<noteq> None)
         \<and> (find_enrollment_pair s' (ru_id user) course_id \<noteq> None \<longrightarrow>
              post_enrollments_insert req user course_id s' =
                (s', error_response 500 ''Failed to enroll in course''))"
proof -
  have r: "route env req s = post_enrollments req user course_id s"
    using assms by (simp add: route_def protected_def requireRole_def)
  have new: "find_enrollment_pair s (ru_id user) course_id = None \<Longrightarrow>
      find_enrollment_pair
        (s\<lparr>enrollments := enrollments s @
              [\<lparr>e_id = Suc (seq_enrollments s), e_student_id = ru_id user,
                e_course_id = course_id, e_enrolled_at = req_now req\<rparr>],
           seq_enrollments := Suc (seq_enrollments s)\<rparr>) (ru_id user) course_id \<noteq> None"
    by (simp add: find_enrollment_pair_def find_append_new)
  show ?thesis
    unfolding r using assms(5) new
    by (auto simp: post_enrollments_def post_enrollments_precheck_def
        post_enrollments_insert_def insert_enrollment_def respond_def Let_def)
qed

theorem enrollment_duplicate_outcomes_witness:
  "route ex_env (ex_request (Some ''Bearer student#111'') 5 (CreateEnrollment 1)) ex_state =
     (ex_state, error_response 409 ''Already enrolled in this course'')
   \<and> post_enrollments_insert (ex_request (Some ''Bearer student#111'') 5 (CreateEnrollment 1))
       \<lparr>ru_id = 3, ru_email = ''c@x.com'', ru_role = Student\<rparr> 1 ex_state =
     (ex_state, error_response 500 ''Failed to enroll in course'')"
  using enrollment_duplicate_outcomes
    [where env = ex_env and s = ex_state and s' = ex_state and course_id = 1
       and req = "ex_request (Some ''Bearer student#111'') 5 (CreateEnrollment 1)"
       and user = "\<lparr>ru_id = 3, ru_email = ''c@x.com'', ru_role = Student\<rparr>"
       and course = "\<lparr>c_id = 1, c_title = ''Intro'', c_description = ''d'', c_instructor_id = 1,
                  c_created_at = 0, c_updated_at = 0\<rparr>"]
  by (simp add: model_defs)

text \<open>
  The claim as stated fails in its second part: two requests of student 4 for course 1
  both pass the pre-check on the same state; the first insert answers 201, the second
  meets the row of the first and answers 500, not 409.
\<close>

theorem concurrent_duplicate_is_internal_error:
  "post_enrollments_precheck \<lparr>ru_id = 4, ru_email = ''d@x.com'', ru_role = Student\<rparr> 1 ex_state = None
   \<and> res_status (snd (post_enrollments_insert
        (ex_request (Some ''Bearer student#1111'') 5 (CreateEnrollment 1))
        \<lparr>ru_id = 4, ru_email = ''d@x.com'', ru_role = Student\<rparr> 1 ex_state)) = 201
   \<and> snd (post_enrollments_insert
        (ex_request (Some ''Bearer student#1111'') 6 (CreateEnrollment 1))
        \<lparr>ru_id = 4, ru_email = ''d@x.com'', ru_role = Student\<rparr> 1
        (fst (post_enrollments_insert
           (ex_request (Some ''Bearer student#1111'') 5 (CreateEnrollment 1))
           \<lparr>ru_id = 4, ru_email = ''d@x.com'', ru_role = Student\<rparr> 1 ex_state))) =
     error_response 500 ''Failed to enroll in course''
   \<and> res_status (snd (post_enrollments_insert
        (ex_request (Some ''Bearer student#1111'') 6 (CreateEnrollment 1))
        \<lparr>ru_id = 4, ru_email = ''d@x.com'', ru_role = Student\<rparr> 1
        (fst (post_enrollments_insert
           (ex_request (Some ''Bearer student#1111'') 5 (CreateEnrollment 1))
           \<lparr>ru_id = 4, ru_email = ''d@x.com'', ru_role = Student\<rparr> 1 ex_state)))) \<noteq> 409"
  by (simp add: model_defs)

subsection \<open>What is audited\<close>


















lemma limiter_rejection_audited:
  assumes "snd (perClientRateLimit req s) \<noteq> None"
  shows "snd (handle env req s) = error_response 429 ''Too many requests''
     \<and> (req_audit_ok req \<longrightarrow>
          audit_log (fst (handle env req s)) = audit_log s @
            [\<lparr>a_user_id = None, a_action = ''RATE_LIMIT_EXCEEDED'',
              a_resource_type = ''request'', a_resource_id = None,
              a_timestamp = req_now req, a_ip_address = Some (clientKey req)\<rparr>])"
  using assms
  by (auto simp: handle_def perClientRateLimit_def auditLog_def Let_def split: if_splits)




subsection \<open>The fixed window of the rate limiter\<close>

lemma rl_protected:
  assumes "\<And>user. rateLimiters (fst (h user)) = rateLimiters s"
  shows "rateLimiters (fst (protected env req s roles v h)) = rateLimiters s"
  using assms by (simp add: protected_def split: sum.splits)

lemma rl_handlers:
  "rateLimiters (fst (post_register env req e pw r s)) = rateLimiters s"
  "rateLimiters (fst (post_login env req e pw s)) = rateLimiters s"
  "rateLimiters (fst (post_courses req user t d s)) = rateLimiters s"
  "rateLimiters (fst (put_course req user i ot od s)) = rateLimiters s"
  "rateLimiters (fst (delete_course_handler env req user i s)) = rateLimiters s"
  "rateLimiters (fst (post_lessons req user i t d oi s)) = rateLimiters s"
  "rateLimiters (fst (put_lesson req user i ot od ooi s)) = rateLimiters s"
  "rateLimiters (fst (delete_lesson_handler env req user i s)) = rateLimiters s"
  "rateLimiters (fst (post_enrollments req user i s)) = rateLimiters s"
  "rateLimiters (fst (delete_enrollment_handler req user i s)) = rateLimiters s"
  "rateLimiters (fst (post_progress req user i c s)) = rateLimiters s"
  by (simp_all add: post_register_def post_login_def post_courses_def put_course_def
      delete_course_handler_def post_lessons_def put_lesson_def delete_lesson_handler_def
      post_enrollments_def post_enrollments_insert_def delete_enrollment_handler_def
      post_progress_def insert_user_def insert_course_def insert_lesson_def
      insert_enrollment_def insert_progress_def update_course_def update_lesson_def
      update_progress_def delete_course_def delete_lesson_def delete_enrollment_def
      Let_def split: option.splits prod.splits)

lemma rl_route: "rateLimiters (fst (route env req s)) = rateLimiters s"
  by (cases "req_call req") (simp_all add: route_def rl_protected rl_handlers)

lemma limiter_entry:
  "rateLimiters (fst (perClientRateLimit req s)) = (rateLimiters s)(clientKey req \<mapsto> next_entry req s)"
  "snd (perClientRateLimit req s) =
     (if ld_count (next_entry req s) > RATE_LIMIT_MAX_REQUESTS
      then Some (error_response 429 ''Too many requests'') else None)"
  by (simp_all add: perClientRateLimit_def next_entry_def Let_def split: option.splits)

lemma handle_entry:
  "rateLimiters (fst (handle env req s)) = (rateLimiters s)(clientKey req \<mapsto> next_entry req s)"
proof (cases "perClientRateLimit req s")
  case (Pair s1 r)
  then have "rateLimiters s1 = (rateLimiters s)(clientKey req \<mapsto> next_entry req s)"
    using limiter_entry(1) [of req s] by simp
  then show ?thesis
    using Pair rl_route [of env req s1] by (cases r) (simp_all add: handle_def)
qed

lemma hits_Cons:
  "hits k (e # es) = hits k [e] + hits k es"
  by (simp add: hits_def)

lemma step_in_window:
  assumes "rateLimiters s k = Some \<lparr>ld_count = c, ld_resetTime = t0\<rparr>"
    and "in_window t0 (event_time e)"
  shows "rateLimiters (step env e s) k = Some \<lparr>ld_count = c + hits k [e], ld_resetTime = t0\<rparr>"
proof (cases e)
  case (Request req)
  then show ?thesis
    using assms
    by (auto simp: handle_entry next_entry_def in_window_def hits_def)
next
  case (Sweep now)
  then show ?thesis
    using assms by (simp add: sweep_def in_window_def hits_def)
qed

lemma run_in_window:
  assumes "rateLimiters s k = Some \<lparr>ld_count = c, ld_resetTime = t0\<rparr>"
    and "list_all (\<lambda>e. in_window t0 (event_time e)) es"
  shows "rateLimiters (run env s es) k = Some \<lparr>ld_count = c + hits k es, ld_resetTime = t0\<rparr>"
  using assms
proof (induction es arbitrary: s c)
  case Nil
  then show ?case by (simp add: run_def hits_def)
next
  case (Cons e es)
  have "rateLimiters (step env e s) k = Some \<lparr>ld_count = c + hits k [e], ld_resetTime = t0\<rparr>"
    using Cons.prems by (simp add: step_in_window)
  then have "rateLimiters (run env (step env e s) es) k =
      Some \<lparr>ld_count = c + hits k [e] + hits k es, ld_resetTime = t0\<rparr>"
    using Cons.IH [of "step env e s" "c + hits k [e]"] Cons.prems(2) by simp
  then show ?case
    using hits_Cons [of k e es] by (simp add: run_def add.assoc)
qed

lemma opens_entry:
  "opens_window req s \<Longrightarrow> next_entry req s = \<lparr>ld_count = 1, ld_resetTime = req_now req\<rparr>"
  by (simp add: opens_window_def next_entry_def split: option.splits)

text \<open>
  C4. Let a request of a client open a window (the client has no entry, or its entry
  has expired: the entry is reset and then incremented, so it holds count 1 and the time
  of the request, and the request is admitted). Let any events follow whose times lie
  in that window: requests of this and other clients through the whole pipeline, and
  ticks of the sweep timer. Then the client's entry counts its requests, and one more
  request of the client
  \<^item> within the window is the request number \<open>hits + 2\<close> of the window: it is admitted
    when that number is at most the ceiling of 100, and otherwise answered 429 ``Too
    many requests'' with an audit entry whose user id is null (written when the storage
    engine accepts it); the count goes up in both cases;
  \<^item> after the window has elapsed resets the entry to count 1 at its own time and is
    admitted.
\<close>

theorem fixed_window_admission:
  assumes opens: "opens_window req0 s"
    and window: "list_all (\<lambda>e. in_window (req_now req0) (event_time e)) es"
    and same: "clientKey req = clientKey req0"
    and trace: "s' = run env (fst (handle env req0 s)) es"
  shows "snd (perClientRateLimit req0 s) = None
     \<and> rateLimiters (fst (handle env req0 s)) (clientKey req0) =
         Some \<lparr>ld_count = 1, ld_resetTime = req_now req0\<rparr>
     \<and> rateLimiters s' (clientKey req0) =
         Some \<lparr>ld_count = 1 + hits (clientKey req0) es, ld_resetTime = req_now req0\<rparr>
     \<and> (if in_window (req_now req0) (req_now req)
         then rateLimiters (fst (handle env req s')) (clientKey req0) =
                Some \<lparr>ld_count = hits (clientKey req0) es + 2, ld_resetTime = req_now req0\<rparr>
            \<and> (if hits (clientKey req0) es + 2 \<le> RATE_LIMIT_MAX_REQUESTS
                then snd (perClientRateLimit req s') = None
                else snd (handle env req s') = error_response 429 ''Too many requests''
                   \<and> (req_audit_ok req \<longrightarrow>
                        audit_log (fst (handle env req s')) = audit_log s' @
                          [\<lparr>a_user_id = None, a_action = ''RATE_LIMIT_EXCEEDED'',
                            a_resource_type = ''request'', a_resource_id = None,
                            a_timestamp = req_now req, a_ip_address = Some (clientKey req)\<rparr>]))
         else snd (perClientRateLimit req s') = None
            \<and> rateLimiters (fst (handle env req s')) (clientKey req0) =
                Some \<lparr>ld_count = 1, ld_resetTime = req_now req\<rparr>)"
proof -
  have first: "next_entry req0 s = \<lparr>ld_count = 1, ld_resetTime = req_now req0\<rparr>"
    using opens by (rule opens_entry)
  have admitted: "snd (perClientRateLimit req0 s) = None"
    using first by (simp add: limiter_entry(2) RATE_LIMIT_MAX_REQUESTS_def)
  have start: "rateLimiters (fst (handle env req0 s)) (clientKey req0) =
      Some \<lparr>ld_count = 1, ld_resetTime = req_now req0\<rparr>"
    using first by (simp add: handle_entry)
  have entry: "rateLimiters s' (clientKey req0) =
      Some \<lparr>ld_count = 1 + hits (clientKey req0) es, ld_resetTime = req_now req0\<rparr>"
    unfolding trace using start window by (rule run_in_window)
  show ?thesis
  proof (cases "in_window (req_now req0) (req_now req)")
    case True
    then have nxt: "next_entry req s' =
        \<lparr>ld_count = hits (clientKey req0) es + 2, ld_resetTime = req_now req0\<rparr>"
      using entry same by (simp add: next_entry_def in_window_def)
    have rejected: "snd (perClientRateLimit req s') \<noteq> None \<Longrightarrow>
        snd (handle env req s') = error_response 429 ''Too many requests''
        \<and> (req_audit_ok req \<longrightarrow>
             audit_log (fst (handle env req s')) = audit_log s' @
               [\<lparr>a_user_id = None, a_action = ''RATE_LIMIT_EXCEEDED'',
                 a_resource_type = ''request'', a_resource_id = None,
                 a_timestamp = req_now req, a_ip_address = Some (clientKey req)\<rparr>])"
      by (rule limiter_rejection_audited)
    show ?thesis
      using True admitted start entry nxt same rejected
      by (simp add: handle_entry limiter_entry(2))
  next
    case False
    then have nxt: "next_entry req s' = \<lparr>ld_count = 1, ld_resetTime = req_now req\<rparr>"
      using entry same by (simp add: next_entry_def in_window_def)
    show ?thesis
      using False admitted start entry nxt same
      by (simp add: handle_entry limiter_entry(2) RATE_LIMIT_MAX_REQUESTS_def)
  qed
qed

theorem fixed_window_admission_witness:
  "res_status (snd (handle ex_env (ex_request None 900000 (DeleteCourse 7))
      (run ex_env (fst (handle ex_env (ex_request None 0 (DeleteCourse 7)) ex_state))
         (replicate 98 (Request (ex_request None 10 (DeleteCourse 7))) @ [Sweep 300000])))) = 401
   \<and> snd (handle ex_env (ex_request None 900000 (DeleteCourse 7))
      (run ex_env (fst (handle ex_env (ex_request None 0 (DeleteCourse 7)) ex_state))
         (replicate 99 (Request (ex_request None 10 (DeleteCourse 7))) @ [Sweep 300000]))) =
     error_response 429 ''Too many requests''
   \<and> res_status (snd (handle ex_env (ex_request None 900001 (DeleteCourse 7))
      (run ex_env (fst (handle ex_env (ex_request None 0 (DeleteCourse 7)) ex_state))
         (replicate 99 (Request (ex_request None 10 (DeleteCourse 7))) @ [Sweep 300000])))) = 401"
proof -
  have key: "\<And>t. clientKey (ex_request None t (DeleteCourse 7)) = ''10.0.0.1''"
    by (simp add: clientKey_def truthy_str_def ex_request_def)
  have now: "\<And>t. req_now (ex_request None t (DeleteCourse 7)) = t"
    by (simp add: ex_request_def)
  have opens: "opens_window (ex_request None 0 (DeleteCourse 7)) ex_state"
    by (simp add: opens_window_def ex_state_def)
  have window: "\<And>n. list_all (\<lambda>e. in_window (req_now (ex_request None 0 (DeleteCourse 7)))
        (event_time e))
      (replicate n (Request (ex_request None 10 (DeleteCourse 7))) @ [Sweep 300000])"
    by (simp add: list_all_iff in_window_def RATE_LIMIT_WINDOW_MS_def ex_request_def)
  have hits: "\<And>n. hits ''10.0.0.1''
      (replicate n (Request (ex_request None 10 (DeleteCourse 7))) @ [Sweep 300000]) = n"
    by (simp add: hits_def key filter_replicate)
  have route: "\<And>t s. snd (route ex_env (ex_request None t (DeleteCourse 7)) s) =
      error_response 401 ''Authentication required''"
    by (simp add: route_def protected_def authenticateToken_def bearer_token_def ex_request_def)
  have admitted: "\<And>req s. snd (perClientRateLimit req s) = None \<Longrightarrow>
      snd (handle ex_env req s) = snd (route ex_env req (fst (perClientRateLimit req s)))"
    by (auto simp: handle_def split: prod.splits)
  show ?thesis
    using
      fixed_window_admission [OF opens window [of 98] , where env = ex_env
        and req = "ex_request None 900000 (DeleteCourse 7)", OF _ refl]
      fixed_window_admission [OF opens window [of 99], where env = ex_env
        and req = "ex_request None 900000 (DeleteCourse 7)", OF _ refl]
      fixed_window_admission [OF opens window [of 99], where env = ex_env
        and req = "ex_request None 900001 (DeleteCourse 7)", OF _ refl]
    by (simp add: key now hits route admitted in_window_def RATE_LIMIT_WINDOW_MS_def
        RATE_LIMIT_MAX_REQUESTS_def error_response_def respond_def)
qed

end
